theory Spec2Isabelle
  imports Complex_Main "HOL-Library.Sublist"
begin

section \<open>Graduate-to-job matching: the scoring and result-cache engine\<close>

text \<open>
  A shallow embedding of \<^verbatim>\<open>ai-service/app/matcher.py\<close>.

  Conventions of the embedding.
  \<^item> A Python \<^verbatim>\<open>float\<close> is a \<^typ>\<open>real\<close>, the value of a finite float, and the
    arithmetic on it is exact: the rounding of each operation is left out, and an input
    or a score that is an infinity or NaN has no counterpart here. The overflow of the sum
    of the weights is modelled (\<open>normalise_weights\<close>). An embedding is the list of its
    \<^verbatim>\<open>float32\<close> components: one whose components overflow or underflow \<^verbatim>\<open>float32\<close>, and
    the NaN score it leads to, are outside the model.
    A Python \<^verbatim>\<open>int\<close> is an \<^typ>\<open>int\<close>.
  \<^item> A \<^verbatim>\<open>str\<close> is a \<^typ>\<open>string\<close>: a list of 8-bit characters, read as the code points
    below 256 (Latin-1).
  \<^item> A \<^verbatim>\<open>TypedDict(total=False)\<close> is a record of optional fields; \<open>None\<close> in a field
    is the absent key. A dict whose keys are data (the weights, the cache) is an
    association list in insertion order.
  \<^item> An exception is a value \<open>Inl e\<close> of the result type.
  \<^item> Values read from the process environment at import time are the fields of a
    \<open>config\<close> record; functions of the Python standard library and of numpy whose
    results are only passed on are the fields of a \<open>lib\<close> record; clock readings are
    the fields of a \<open>clock\<close> record.
\<close>

subsection \<open>Data model\<close>

record graduate_metadata =
  grad_skills :: "string list option"
  grad_education :: "string option"
  grad_experience_years :: "real option"
  grad_latest_experience_year :: "int option"

record job_metadata =
  job_skills :: "string list option"
  job_education :: "string option"
  job_experience_years :: "real option"
  job_updated_at :: "string option"

record match_options =
  min_score :: "real option"
  limit :: "int option"
  weights :: "(string \<times> real) list option"

record job_embedding_payload =
  job_id :: "string option"
  embedding :: "real list option"
  metadata :: "job_metadata option"

record match_factors =
  factor_embedding :: real
  factor_skills :: real
  factor_education :: real
  factor_experience :: real
  factor_freshness :: real

record match_result =
  result_id :: string
  score :: real
  factors :: match_factors

record cache_entry =
  entry_value :: "match_result list"
  expires_at :: real

type_synonym cache = "(string \<times> cache_entry) list"

datatype error =
    DimensionMismatch nat nat
  | KeyError string
  | Failed_to_compute_matches error

text \<open>\<^verbatim>\<open>EMBEDDING_DIMENSION\<close> of \<^verbatim>\<open>app/embeddings.py\<close>.\<close>

definition EMBEDDING_DIMENSION :: nat where
  "EMBEDDING_DIMENSION = 3072"

text \<open>The module constants read from the environment, with the defaults of the source.\<close>

record config =
  DEFAULT_MIN_SCORE :: real
  DEFAULT_MAX_RESULTS :: int
  MATCH_CACHE_TTL_SECONDS :: int
  MATCH_CACHE_MAX_ENTRIES :: int
  FRESHNESS_HALF_LIFE_DAYS :: real
  MATCH_WEIGHT_EMBEDDING :: real
  MATCH_WEIGHT_SKILLS :: real
  MATCH_WEIGHT_EDUCATION :: real
  MATCH_WEIGHT_EXPERIENCE :: real
  MATCH_WEIGHT_FRESHNESS :: real

definition default_config :: config where
  "default_config =
     \<lparr> DEFAULT_MIN_SCORE = 0.3, DEFAULT_MAX_RESULTS = 50,
       MATCH_CACHE_TTL_SECONDS = 300, MATCH_CACHE_MAX_ENTRIES = 1024,
       FRESHNESS_HALF_LIFE_DAYS = 30,
       MATCH_WEIGHT_EMBEDDING = 0.6, MATCH_WEIGHT_SKILLS = 0.2,
       MATCH_WEIGHT_EDUCATION = 0.1, MATCH_WEIGHT_EXPERIENCE = 0.05,
       MATCH_WEIGHT_FRESHNESS = 0.05 \<rparr>"

definition DEFAULT_WEIGHTS :: "config \<Rightarrow> (string \<times> real) list" where
  "DEFAULT_WEIGHTS cfg =
     [(''embedding'', MATCH_WEIGHT_EMBEDDING cfg),
      (''skills'', MATCH_WEIGHT_SKILLS cfg),
      (''education'', MATCH_WEIGHT_EDUCATION cfg),
      (''experience'', MATCH_WEIGHT_EXPERIENCE cfg),
      (''freshness'', MATCH_WEIGHT_FRESHNESS cfg)]"

text \<open>
  Library functions the module calls and whose results it only passes on:
  \<^item> \<open>sha1_hexdigest\<close>: \<^verbatim>\<open>hashlib.sha1(b).hexdigest()\<close>;
  \<^item> \<open>float32_tobytes\<close>: \<^verbatim>\<open>np.asarray(v, dtype=np.float32).tobytes()\<close>;
  \<^item> \<open>json_dumps_*\<close>: \<^verbatim>\<open>json.dumps(d, sort_keys=True, default=str)\<close> on the three
    kinds of dict it is applied to (a string and its UTF-8 bytes are the same list here);
  \<^item> \<open>fromisoformat\<close>: \<^verbatim>\<open>datetime.fromisoformat\<close>, giving the instant in seconds since
    the epoch (a timestamp without offset read as UTC, as the source does next), or
    \<open>None\<close> where it raises ValueError.
\<close>

record lib =
  sha1_hexdigest :: "string \<Rightarrow> string"
  float32_tobytes :: "real list \<Rightarrow> string"
  json_dumps_graduate :: "graduate_metadata \<Rightarrow> string"
  json_dumps_job :: "job_metadata \<Rightarrow> string"
  json_dumps_options :: "match_options \<Rightarrow> string"
  fromisoformat :: "string \<Rightarrow> real option"

text \<open>
  The clock readings of one call of \<open>compute_matches\<close>: \<^verbatim>\<open>time.monotonic()\<close> in
  \<open>_get_from_cache\<close> and in \<open>_set_cache\<close>, and \<^verbatim>\<open>datetime.now(timezone.utc)\<close> in
  \<open>_freshness_score\<close> in seconds since the epoch (one reading for the whole call).
\<close>

record clock =
  monotonic_get :: real
  monotonic_set :: real
  utc_now :: real

subsection \<open>Strings\<close>

text \<open>
  The characters \<^verbatim>\<open>str.strip()\<close> removes (those for which \<^verbatim>\<open>str.isspace\<close> holds): below
  256 they are U+0009 to U+000D, U+001C to U+0020, U+0085 and U+00A0.
\<close>

definition is_space :: "char \<Rightarrow> bool" where
  "is_space c = (c \<in> set [CHR 0x09, CHR 0x0A, CHR 0x0B, CHR 0x0C, CHR 0x0D,
                           CHR 0x1C, CHR 0x1D, CHR 0x1E, CHR 0x1F, CHR 0x20,
                           CHR 0x85, CHR 0xA0])"

text \<open>
  The letters \<^verbatim>\<open>str.lower()\<close> changes: below 256 they are A to Z and the capital letters
  U+00C0 to U+00DE of Latin-1 (U+00D7, the multiplication sign, is not one), each sent to
  the code point 32 above it.
\<close>

definition upper_letters :: string where
  "upper_letters =
     ''ABCDEFGHIJKLMNOPQRSTUVWXYZ''
     @ [CHR 0xC0, CHR 0xC1, CHR 0xC2, CHR 0xC3, CHR 0xC4, CHR 0xC5, CHR 0xC6, CHR 0xC7,
        CHR 0xC8, CHR 0xC9, CHR 0xCA, CHR 0xCB, CHR 0xCC, CHR 0xCD, CHR 0xCE, CHR 0xCF,
        CHR 0xD0, CHR 0xD1, CHR 0xD2, CHR 0xD3, CHR 0xD4, CHR 0xD5, CHR 0xD6,
        CHR 0xD8, CHR 0xD9, CHR 0xDA, CHR 0xDB, CHR 0xDC, CHR 0xDD, CHR 0xDE]"

definition lower_letters :: string where
  "lower_letters =
     ''abcdefghijklmnopqrstuvwxyz''
     @ [CHR 0xE0, CHR 0xE1, CHR 0xE2, CHR 0xE3, CHR 0xE4, CHR 0xE5, CHR 0xE6, CHR 0xE7,
        CHR 0xE8, CHR 0xE9, CHR 0xEA, CHR 0xEB, CHR 0xEC, CHR 0xED, CHR 0xEE, CHR 0xEF,
        CHR 0xF0, CHR 0xF1, CHR 0xF2, CHR 0xF3, CHR 0xF4, CHR 0xF5, CHR 0xF6,
        CHR 0xF8, CHR 0xF9, CHR 0xFA, CHR 0xFB, CHR 0xFC, CHR 0xFD, CHR 0xFE]"

definition lower_char :: "char \<Rightarrow> char" where
  "lower_char c =
     (case map_of (zip upper_letters lower_letters) c of Some d \<Rightarrow> d | None \<Rightarrow> c)"

definition strip :: "string \<Rightarrow> string" where
  "strip s = rev (dropWhile is_space (rev (dropWhile is_space s)))"

definition lower :: "string \<Rightarrow> string" where
  "lower s = map lower_char s"

text \<open>\<^verbatim>\<open>sep.join(parts)\<close>.\<close>

fun join :: "string \<Rightarrow> string list \<Rightarrow> string" where
  "join sep [] = []"
| "join sep [x] = x"
| "join sep (x # y # zs) = x @ sep @ join sep (y # zs)"

text \<open>\<^verbatim>\<open>s.replace("Z", "+00:00")\<close>.\<close>

definition replace_Z :: "string \<Rightarrow> string" where
  "replace_Z s = concat (map (\<lambda>c. if c = CHR ''Z'' then ''+00:00'' else [c]) s)"

subsection \<open>Vectors and weights\<close>

text \<open>
  \<open>_validate_vector\<close>. The argument is a flat sequence of floats, so the array is
  one-dimensional and only the size check can fail.
\<close>

definition validate_vector :: "real list \<Rightarrow> error + real list" where
  "validate_vector vector =
     (if length vector \<noteq> EMBEDDING_DIMENSION
      then Inl (DimensionMismatch EMBEDDING_DIMENSION (length vector))
      else Inr vector)"

text \<open>
  The reals that round to the float infinity: those from \<open>2^1024 - 2^970\<close> on, half a
  unit in the last place above the largest double \<open>2^1024 - 2^971\<close>.
\<close>

definition rounds_to_infinity :: "real \<Rightarrow> bool" where
  "rounds_to_infinity x = (2 ^ 1024 - 2 ^ 970 \<le> x)"

text \<open>
  \<open>_normalise_weights\<close>. The clamped values are finite and not negative, so their float
  sum \<open>total\<close> is a finite float or, when it overflows, \<open>inf\<close>; then \<^verbatim>\<open>total == 0\<close> is false
  and every quotient \<^verbatim>\<open>value / total\<close> is \<open>0.0\<close>. The sum overflows here when the exact sum
  rounds to infinity.
\<close>

definition normalise_weights :: "(string \<times> real) list \<Rightarrow> (string \<times> real) list" where
  "normalise_weights ws =
     (let positive_weights = map (\<lambda>(key, v). (key, max v 0)) ws;
          total = sum_list (map snd positive_weights)
      in if total = 0
         then map (\<lambda>(key, v). (key, if key = ''embedding'' then 1 else 0)) ws
         else if rounds_to_infinity total
         then map (\<lambda>(key, v). (key, 0)) positive_weights
         else map (\<lambda>(key, v). (key, v / total)) positive_weights)"

text \<open>\<^verbatim>\<open>d[key] = v\<close> on an insertion-ordered dict: replace in place, or append.\<close>

fun dict_set :: "'k \<Rightarrow> 'v \<Rightarrow> ('k \<times> 'v) list \<Rightarrow> ('k \<times> 'v) list" where
  "dict_set key v [] = [(key, v)]"
| "dict_set key v ((k, w) # rest) =
     (if k = key then (key, v) # rest else (k, w) # dict_set key v rest)"

text \<open>\<^verbatim>\<open>d.update(other)\<close>.\<close>

definition dict_update :: "('k \<times> 'v) list \<Rightarrow> ('k \<times> 'v) list \<Rightarrow> ('k \<times> 'v) list" where
  "dict_update d other = foldl (\<lambda>acc (k, v). dict_set k v acc) d other"

text \<open>
  The dict \<open>weights_input\<close> of \<open>_prepare_options\<close>: the defaults, updated with the
  weights of the options when there are any.
\<close>

definition weights_input :: "config \<Rightarrow> match_options option \<Rightarrow> (string \<times> real) list" where
  "weights_input cfg options =
     (case options of
        None \<Rightarrow> DEFAULT_WEIGHTS cfg
      | Some opts \<Rightarrow>
          (case weights opts of
             None \<Rightarrow> DEFAULT_WEIGHTS cfg
           | Some w \<Rightarrow> if w = [] then DEFAULT_WEIGHTS cfg
                      else dict_update (DEFAULT_WEIGHTS cfg) w))"

text \<open>\<open>_prepare_options\<close>. An empty options dict and \<open>None\<close> both give the defaults.\<close>

definition prepare_options ::
  "config \<Rightarrow> match_options option \<Rightarrow> real \<times> int \<times> (string \<times> real) list" where
  "prepare_options cfg options =
     (let min_score_in = (case options of None \<Rightarrow> DEFAULT_MIN_SCORE cfg
              | Some opts \<Rightarrow> (case min_score opts of None \<Rightarrow> DEFAULT_MIN_SCORE cfg | Some m \<Rightarrow> m));
          limit_in = (case options of None \<Rightarrow> DEFAULT_MAX_RESULTS cfg
              | Some opts \<Rightarrow> (case limit opts of None \<Rightarrow> DEFAULT_MAX_RESULTS cfg | Some n \<Rightarrow> n))
      in (max 0 (min min_score_in 1), max 1 limit_in,
          normalise_weights (weights_input cfg options)))"

subsection \<open>Request canonicalisation\<close>

text \<open>\<open>_hash_vector\<close>.\<close>

definition hash_vector :: "lib \<Rightarrow> real list \<Rightarrow> string" where
  "hash_vector l vector = sha1_hexdigest l (float32_tobytes l vector)"

text \<open>
  \<open>_hash_metadata\<close>, once for each kind of dict it is applied to. A dict is falsy when
  it has no key.
\<close>

definition hash_metadata_graduate :: "lib \<Rightarrow> graduate_metadata option \<Rightarrow> string" where
  "hash_metadata_graduate l m =
     (case m of None \<Rightarrow> ''0''
      | Some md \<Rightarrow>
          if grad_skills md = None \<and> grad_education md = None
             \<and> grad_experience_years md = None \<and> grad_latest_experience_year md = None
          then ''0''
          else sha1_hexdigest l (json_dumps_graduate l md))"

definition hash_metadata_job :: "lib \<Rightarrow> job_metadata option \<Rightarrow> string" where
  "hash_metadata_job l m =
     (case m of None \<Rightarrow> ''0''
      | Some md \<Rightarrow>
          if job_skills md = None \<and> job_education md = None
             \<and> job_experience_years md = None \<and> job_updated_at md = None
          then ''0''
          else sha1_hexdigest l (json_dumps_job l md))"

definition empty_options :: match_options where
  "empty_options = \<lparr> min_score = None, limit = None, weights = None \<rparr>"

text \<open>The component of one job in \<open>_build_cache_key\<close>.\<close>

definition job_component :: "lib \<Rightarrow> job_embedding_payload \<Rightarrow> string" where
  "job_component l job =
     join ''|''
       [case job_id job of None \<Rightarrow> [] | Some i \<Rightarrow> i,
        hash_vector l (case embedding job of None \<Rightarrow> [] | Some e \<Rightarrow> e),
        hash_metadata_job l (metadata job)]"

text \<open>The string \<open>_build_cache_key\<close> hashes.\<close>

definition cache_key_text ::
  "lib \<Rightarrow> real list \<Rightarrow> job_embedding_payload list \<Rightarrow> graduate_metadata option
     \<Rightarrow> match_options option \<Rightarrow> string" where
  "cache_key_text l graduate_embedding job_embeddings graduate_meta options =
     join ''::''
       ([hash_vector l graduate_embedding,
         hash_metadata_graduate l graduate_meta,
         json_dumps_options l (case options of None \<Rightarrow> empty_options | Some opts \<Rightarrow> opts)]
        @ map (job_component l) job_embeddings)"

text \<open>\<open>_build_cache_key\<close>.\<close>

definition build_cache_key ::
  "lib \<Rightarrow> real list \<Rightarrow> job_embedding_payload list \<Rightarrow> graduate_metadata option
     \<Rightarrow> match_options option \<Rightarrow> string" where
  "build_cache_key l graduate_embedding job_embeddings graduate_meta options =
     sha1_hexdigest l
       (cache_key_text l graduate_embedding job_embeddings graduate_meta options)"

text \<open>
  \<open>_deduplicate_jobs\<close>: the loop over the jobs with the dict \<open>deduped\<close> as accumulator,
  then the values of the dict in insertion order.
\<close>

fun deduplicate_loop ::
  "(string \<times> job_embedding_payload) list \<Rightarrow> job_embedding_payload list
     \<Rightarrow> (string \<times> job_embedding_payload) list" where
  "deduplicate_loop deduped [] = deduped"
| "deduplicate_loop deduped (job # rest) =
     (case job_id job of
        None \<Rightarrow> deduplicate_loop deduped rest
      | Some i \<Rightarrow>
          if i = [] \<or> embedding job = None then deduplicate_loop deduped rest
          else if i \<in> fst ` set deduped then deduplicate_loop deduped rest
          else deduplicate_loop (deduped @ [(i, job)]) rest)"

definition deduplicate_jobs :: "job_embedding_payload list \<Rightarrow> job_embedding_payload list" where
  "deduplicate_jobs job_embeddings = map snd (deduplicate_loop [] job_embeddings)"

subsection \<open>Result cache\<close>

text \<open>
  The \<open>OrderedDict\<close> \<open>_cache\<close>, oldest entry first. \<open>cache_pop\<close> is
  \<^verbatim>\<open>_cache.pop(key, None)\<close> and \<open>move_to_end\<close> is \<^verbatim>\<open>_cache.move_to_end(key)\<close> for a key
  that is present.
\<close>

definition cache_pop :: "string \<Rightarrow> cache \<Rightarrow> cache" where
  "cache_pop key c = filter (\<lambda>(k, e). k \<noteq> key) c"

definition move_to_end :: "string \<Rightarrow> cache \<Rightarrow> cache" where
  "move_to_end key c =
     (case map_of c key of None \<Rightarrow> c | Some e \<Rightarrow> cache_pop key c @ [(key, e)])"

text \<open>\<open>_get_from_cache\<close> at the monotonic clock reading \<open>now\<close>: the value and the cache after.\<close>

definition get_from_cache :: "string \<Rightarrow> real \<Rightarrow> cache \<Rightarrow> match_result list option \<times> cache" where
  "get_from_cache key now c =
     (case map_of c key of
        None \<Rightarrow> (None, c)
      | Some entry \<Rightarrow>
          if expires_at entry < now then (None, cache_pop key c)
          else (Some (entry_value entry), move_to_end key c))"

text \<open>
  The eviction loop of \<open>_set_cache\<close>: \<^verbatim>\<open>popitem(last=False)\<close> while the cache is larger
  than the maximum. On an empty dict \<open>popitem\<close> raises KeyError.
\<close>

fun evict :: "int \<Rightarrow> cache \<Rightarrow> error option \<times> cache" where
  "evict max_entries [] =
     (if 0 > max_entries then (Some (KeyError ''dictionary is empty''), []) else (None, []))"
| "evict max_entries (oldest # rest) =
     (if int (length (oldest # rest)) > max_entries then evict max_entries rest
      else (None, oldest # rest))"

text \<open>\<open>_set_cache\<close> at the monotonic clock reading \<open>now\<close>.\<close>

definition set_cache ::
  "config \<Rightarrow> string \<Rightarrow> match_result list \<Rightarrow> real \<Rightarrow> cache \<Rightarrow> error option \<times> cache" where
  "set_cache cfg key v now c =
     (let c1 = (if key \<in> fst ` set c then move_to_end key c else c);
          c2 = dict_set key
                 \<lparr> entry_value = v,
                   expires_at = now + of_int (MATCH_CACHE_TTL_SECONDS cfg) \<rparr> c1
      in evict (MATCH_CACHE_MAX_ENTRIES cfg) c2)"

subsection \<open>Similarity and factor scorers\<close>

text \<open>\<open>cosine_similarity\<close>; both vectors are validated first.\<close>

definition dot :: "real list \<Rightarrow> real list \<Rightarrow> real" where
  "dot v1 v2 = sum_list (map (\<lambda>(a, b). a * b) (zip v1 v2))"

definition norm2 :: "real list \<Rightarrow> real" where
  "norm2 v = sqrt (sum_list (map (\<lambda>a. a * a) v))"

definition cosine_similarity :: "real list \<Rightarrow> real list \<Rightarrow> error + real" where
  "cosine_similarity vec1 vec2 =
     (case validate_vector vec1 of
        Inl e \<Rightarrow> Inl e
      | Inr vec1_array \<Rightarrow>
          (case validate_vector vec2 of
             Inl e \<Rightarrow> Inl e
           | Inr vec2_array \<Rightarrow>
               Inr (if norm2 vec1_array = 0 \<or> norm2 vec2_array = 0 then 0
                    else dot vec1_array vec2_array / (norm2 vec1_array * norm2 vec2_array))))"

text \<open>The set comprehension of \<open>_skills_similarity\<close>: the filter \<^verbatim>\<open>if skill\<close> drops the empty
  strings, then each skill that is left is stripped and lowercased.\<close>

definition skill_set :: "string list \<Rightarrow> string set" where
  "skill_set skills =
     set (map (\<lambda>skill. lower (strip skill)) (filter (\<lambda>skill. skill \<noteq> []) skills))"

text \<open>
  The sets \<open>G\<close> and \<open>J\<close> in the words of the specification, to compare \<open>skill_set\<close>
  with: every skill is trimmed and lowercased, and the empty strings are then filtered
  out. A blank skill is one that is not empty and consists of whitespace only.
\<close>

definition claimed_skill_set :: "string list \<Rightarrow> string set" where
  "claimed_skill_set skills =
     set (filter (\<lambda>skill. skill \<noteq> []) (map (\<lambda>skill. lower (strip skill)) skills))"

definition blank :: "string \<Rightarrow> bool" where
  "blank skill = (skill \<noteq> [] \<and> strip skill = [])"

text \<open>\<open>_skills_similarity\<close>. \<^verbatim>\<open>not graduate\<close> holds for \<open>None\<close> and for the empty list.\<close>

definition skills_similarity :: "string list option \<Rightarrow> string list option \<Rightarrow> real" where
  "skills_similarity graduate job =
     (case graduate of
        None \<Rightarrow> 0
      | Some graduate_list \<Rightarrow>
          if graduate_list = [] then 0
          else (case job of
                  None \<Rightarrow> 0.5
                | Some job_list \<Rightarrow>
                    if job_list = [] then 0.5
                    else let grad_set = skill_set graduate_list;
                             job_set = skill_set job_list
                         in if grad_set = {} \<or> job_set = {} then 0
                            else real (card (grad_set \<inter> job_set))
                                 / real (card (grad_set \<union> job_set))))"

text \<open>\<open>_education_similarity\<close>; \<^verbatim>\<open>a in b\<close> on strings is the contiguous-sublist test.\<close>

definition education_similarity :: "string option \<Rightarrow> string option \<Rightarrow> real" where
  "education_similarity graduate job =
     (case job of
        None \<Rightarrow> 0.5
      | Some job_label \<Rightarrow>
          if job_label = [] then 0.5
          else (case graduate of
                  None \<Rightarrow> 0
                | Some grad_label \<Rightarrow>
                    if grad_label = [] then 0
                    else let grad_norm = lower (strip grad_label);
                             job_norm = lower (strip job_label)
                         in if grad_norm = [] \<or> job_norm = [] then 0
                            else if grad_norm = job_norm then 1
                            else if sublist grad_norm job_norm \<or> sublist job_norm grad_norm
                                 then 0.7
                            else 0))"

text \<open>\<open>_experience_similarity\<close>.\<close>

definition experience_similarity :: "real option \<Rightarrow> real option \<Rightarrow> real" where
  "experience_similarity graduate_years job_years =
     (case job_years of
        None \<Rightarrow> 0.6
      | Some jy \<Rightarrow>
          (case graduate_years of
             None \<Rightarrow> 0
           | Some gy \<Rightarrow>
               let diff = \<bar>gy - jy\<bar>
               in if diff \<ge> jy then 0
                  else max 0 (1 - diff / max jy 1)))"

text \<open>\<open>_freshness_score\<close> at the wall-clock reading \<open>now\<close> (seconds since the epoch).\<close>

definition freshness_score :: "lib \<Rightarrow> config \<Rightarrow> real \<Rightarrow> string option \<Rightarrow> real" where
  "freshness_score l cfg now updated_at =
     (case updated_at of
        None \<Rightarrow> 0.5
      | Some text \<Rightarrow>
          if text = [] then 0.5
          else (case fromisoformat l (replace_Z text) of
                  None \<Rightarrow> 0.4
                | Some timestamp \<Rightarrow>
                    let age_days = (now - timestamp) / 86400
                    in if age_days \<le> 0 then 1
                       else if FRESHNESS_HALF_LIFE_DAYS cfg \<le> 0 then 0.5
                       else min (max (0.5 powr (age_days / FRESHNESS_HALF_LIFE_DAYS cfg)) 0) 1))"

subsection \<open>Rounding\<close>

text \<open>\<^verbatim>\<open>round(x, 4)\<close>: to the nearest multiple of \<open>1/10000\<close>, a tie to the even one.\<close>

definition round_half_even :: "real \<Rightarrow> int" where
  "round_half_even y =
     (let f = \<lfloor>y\<rfloor>; d = y - of_int f
      in if d < 1 / 2 then f
         else if 1 / 2 < d then f + 1
         else if even f then f else f + 1)"

definition round4 :: "real \<Rightarrow> real" where
  "round4 x = of_int (round_half_even (x * 10000)) / 10000"

subsection \<open>Match orchestrator\<close>

text \<open>\<^verbatim>\<open>weights[key]\<close>, which raises KeyError for a missing key.\<close>

definition weight :: "(string \<times> real) list \<Rightarrow> string \<Rightarrow> error + real" where
  "weight ws key = (case map_of ws key of None \<Rightarrow> Inl (KeyError key) | Some w \<Rightarrow> Inr w)"

text \<open>The weighted sum \<open>combined_score\<close> of the loop body.\<close>

definition combined_score :: "(string \<times> real) list \<Rightarrow> match_factors \<Rightarrow> error + real" where
  "combined_score ws f =
     (case weight ws ''embedding'' of Inl e \<Rightarrow> Inl e | Inr w_embedding \<Rightarrow>
     (case weight ws ''skills'' of Inl e \<Rightarrow> Inl e | Inr w_skills \<Rightarrow>
     (case weight ws ''education'' of Inl e \<Rightarrow> Inl e | Inr w_education \<Rightarrow>
     (case weight ws ''experience'' of Inl e \<Rightarrow> Inl e | Inr w_experience \<Rightarrow>
     (case weight ws ''freshness'' of Inl e \<Rightarrow> Inl e | Inr w_freshness \<Rightarrow>
        Inr (factor_embedding f * w_embedding
             + factor_skills f * w_skills
             + factor_education f * w_education
             + factor_experience f * w_experience
             + factor_freshness f * w_freshness))))))"

definition empty_job_metadata :: job_metadata where
  "empty_job_metadata =
     \<lparr> job_skills = None, job_education = None, job_experience_years = None,
       job_updated_at = None \<rparr>"

text \<open>
  The five factor scores of one job, unrounded, as the loop body of \<open>compute_matches\<close>
  computes them; \<^verbatim>\<open>np.clip(x, 0.0, 1.0)\<close> is \<open>min (max x 0) 1\<close>.
\<close>

definition job_factors ::
  "lib \<Rightarrow> config \<Rightarrow> real \<Rightarrow> real list \<Rightarrow> graduate_metadata option
     \<Rightarrow> real list \<Rightarrow> job_metadata \<Rightarrow> error + match_factors" where
  "job_factors l cfg now graduate_embedding graduate_meta job_embedding md =
     (case cosine_similarity graduate_embedding job_embedding of
        Inl e \<Rightarrow> Inl e
      | Inr cs \<Rightarrow>
          Inr \<lparr> factor_embedding = min (max cs 0) 1,
                factor_skills =
                  skills_similarity (Option.bind graduate_meta grad_skills) (job_skills md),
                factor_education =
                  education_similarity (Option.bind graduate_meta grad_education)
                    (job_education md),
                factor_experience =
                  experience_similarity (Option.bind graduate_meta grad_experience_years)
                    (job_experience_years md),
                factor_freshness = freshness_score l cfg now (job_updated_at md) \<rparr>)"

definition round_factors :: "match_factors \<Rightarrow> match_factors" where
  "round_factors f =
     \<lparr> factor_embedding = round4 (factor_embedding f),
       factor_skills = round4 (factor_skills f),
       factor_education = round4 (factor_education f),
       factor_experience = round4 (factor_experience f),
       factor_freshness = round4 (factor_freshness f) \<rparr>"

text \<open>
  The unrounded combined score of one job that has an embedding: the value the loop body
  compares with the effective minimum score.
\<close>

definition job_combined_score ::
  "lib \<Rightarrow> config \<Rightarrow> real \<Rightarrow> real list \<Rightarrow> graduate_metadata option
     \<Rightarrow> (string \<times> real) list \<Rightarrow> job_embedding_payload \<Rightarrow> error + real" where
  "job_combined_score l cfg now graduate_embedding graduate_meta ws job =
     (case job_factors l cfg now graduate_embedding graduate_meta
             (case embedding job of None \<Rightarrow> [] | Some e \<Rightarrow> e)
             (case metadata job of None \<Rightarrow> empty_job_metadata | Some m \<Rightarrow> m) of
        Inl e \<Rightarrow> Inl e
      | Inr f \<Rightarrow> combined_score ws f)"

text \<open>
  One pass of the loop body: \<open>Inl e\<close> is a raise, \<open>Inr None\<close> a \<^verbatim>\<open>continue\<close>,
  \<open>Inr (Some r)\<close> an append of \<open>r\<close>.
\<close>

definition score_job ::
  "lib \<Rightarrow> config \<Rightarrow> real \<Rightarrow> real list \<Rightarrow> graduate_metadata option
     \<Rightarrow> real \<Rightarrow> (string \<times> real) list \<Rightarrow> job_embedding_payload
     \<Rightarrow> error + match_result option" where
  "score_job l cfg now graduate_embedding graduate_meta minimum ws job =
     (case job_id job of
        None \<Rightarrow> Inr None
      | Some i \<Rightarrow>
          if i = [] then Inr None
          else (case embedding job of
                  None \<Rightarrow> Inr None
                | Some job_embedding \<Rightarrow>
                    (case job_factors l cfg now graduate_embedding graduate_meta job_embedding
                            (case metadata job of None \<Rightarrow> empty_job_metadata | Some m \<Rightarrow> m) of
                       Inl e \<Rightarrow> Inl e
                     | Inr f \<Rightarrow>
                         (case combined_score ws f of
                            Inl e \<Rightarrow> Inl e
                          | Inr combined \<Rightarrow>
                              if combined < minimum then Inr None
                              else Inr (Some \<lparr> result_id = i, score = round4 combined,
                                               factors = round_factors f \<rparr>)))))"

text \<open>The loop over the deduplicated jobs: the first raise ends it.\<close>

fun score_jobs ::
  "lib \<Rightarrow> config \<Rightarrow> real \<Rightarrow> real list \<Rightarrow> graduate_metadata option
     \<Rightarrow> real \<Rightarrow> (string \<times> real) list \<Rightarrow> job_embedding_payload list
     \<Rightarrow> error + match_result list" where
  "score_jobs l cfg now graduate_embedding graduate_meta minimum ws [] = Inr []"
| "score_jobs l cfg now graduate_embedding graduate_meta minimum ws (job # rest) =
     (case score_job l cfg now graduate_embedding graduate_meta minimum ws job of
        Inl e \<Rightarrow> Inl e
      | Inr r \<Rightarrow>
          (case score_jobs l cfg now graduate_embedding graduate_meta minimum ws rest of
             Inl e \<Rightarrow> Inl e
           | Inr results \<Rightarrow> Inr (case r of None \<Rightarrow> results | Some m \<Rightarrow> m # results)))"

text \<open>
  \<^verbatim>\<open>results.sort(key=lambda item: item["score"], reverse=True)\<close>, a stable sort, then
  \<^verbatim>\<open>results[:limit]\<close>.
\<close>

definition rank :: "int \<Rightarrow> match_result list \<Rightarrow> match_result list" where
  "rank max_results results =
     (let sorted_results = sort_key (\<lambda>item. - score item) results
      in if sorted_results \<noteq> [] then take (nat max_results) sorted_results else sorted_results)"

text \<open>
  \<open>compute_matches\<close> on the cache \<open>c\<close>: the result, or the exception the handler
  re-raises, and the cache after the call.
\<close>

definition compute_matches ::
  "lib \<Rightarrow> config \<Rightarrow> clock \<Rightarrow> cache \<Rightarrow> real list \<Rightarrow> job_embedding_payload list
     \<Rightarrow> graduate_metadata option \<Rightarrow> match_options option
     \<Rightarrow> (error + match_result list) \<times> cache" where
  "compute_matches l cfg clk c graduate_embedding job_embeddings graduate_meta options =
     (case validate_vector graduate_embedding of
        Inl e \<Rightarrow> (Inl (Failed_to_compute_matches e), c)
      | Inr checked \<Rightarrow>
          let jobs = deduplicate_jobs job_embeddings
          in if jobs = [] then (Inr [], c)
             else
               let cache_key = build_cache_key l graduate_embedding jobs graduate_meta options
               in (case get_from_cache cache_key (monotonic_get clk) c of
                     (Some cached, c1) \<Rightarrow> (Inr cached, c1)
                   | (None, c1) \<Rightarrow>
                       (case prepare_options cfg options of
                          (minimum, max_results, ws) \<Rightarrow>
                            (case score_jobs l cfg (utc_now clk) graduate_embedding
                                    graduate_meta minimum ws jobs of
                               Inl e \<Rightarrow> (Inl (Failed_to_compute_matches e), c1)
                             | Inr results \<Rightarrow>
                                 let final = rank max_results results
                                 in (case set_cache cfg cache_key final (monotonic_set clk) c1 of
                                       (Some e, c2) \<Rightarrow> (Inl (Failed_to_compute_matches e), c2)
                                     | (None, c2) \<Rightarrow> (Inr final, c2))))))"

subsection \<open>Sequences of cache operations\<close>

text \<open>
  A read or a write of the cache, with its key and the monotonic clock reading at which it
  runs; \<open>run_ops\<close> applies a sequence of them to a cache.
\<close>

datatype cache_op = Get string real | Set string "match_result list" real

fun apply_op :: "config \<Rightarrow> cache \<Rightarrow> cache_op \<Rightarrow> cache" where
  "apply_op cfg c (Get key now) = snd (get_from_cache key now c)"
| "apply_op cfg c (Set key v now) = snd (set_cache cfg key v now c)"

definition run_ops :: "config \<Rightarrow> cache \<Rightarrow> cache_op list \<Rightarrow> cache" where
  "run_ops cfg c ops = foldl (apply_op cfg) c ops"

subsection \<open>Sample inputs\<close>

text \<open>
  A library to run the definitions on concrete inputs (the theorems below hold for every
  library): the digest is the identity, the bytes of a vector tell zero from non-zero
  components, the serialisers are constant, and \<open>fromisoformat\<close> knows the first instant of
  2025 (UTC).
\<close>

definition plain_lib :: lib where
  "plain_lib =
     \<lparr> sha1_hexdigest = (\<lambda>b. b),
       float32_tobytes = map (\<lambda>x. if x = 0 then CHR ''0'' else CHR ''1''),
       json_dumps_graduate = (\<lambda>m. ''graduate''),
       json_dumps_job = (\<lambda>m. ''job''),
       json_dumps_options = (\<lambda>opts. ''options''),
       fromisoformat =
         (\<lambda>text. if text = ''2025-01-01T00:00:00+00:00'' then Some 1735689600 else None) \<rparr>"

text \<open>Sample inputs: a zero embedding, options that score by skills alone, a graduate, jobs
  that differ in their skills, and the clock readings of a call.\<close>

definition zero_vector :: "real list" where
  "zero_vector = replicate EMBEDDING_DIMENSION 0"

definition skills_only :: match_options where
  "skills_only =
     \<lparr> min_score = Some 0, limit = Some 5,
       weights = Some [(''embedding'', 0), (''skills'', 1), (''education'', 0),
                       (''experience'', 0), (''freshness'', 0)] \<rparr>"

definition python_graduate :: graduate_metadata where
  "python_graduate =
     \<lparr> grad_skills = Some [''Python''], grad_education = None,
       grad_experience_years = None, grad_latest_experience_year = None \<rparr>"

definition skill_job :: "string \<Rightarrow> string list \<Rightarrow> job_embedding_payload" where
  "skill_job i skills =
     \<lparr> job_id = Some i, embedding = Some zero_vector,
       metadata = Some \<lparr> job_skills = Some skills, job_education = None,
                         job_experience_years = None, job_updated_at = None \<rparr> \<rparr>"

definition three_jobs :: "job_embedding_payload list" where
  "three_jobs = [skill_job ''job-1'' [''go''], skill_job ''job-2'' [''python''],
                 skill_job ''job-3'' [''rust'']]"

definition start_clock :: clock where
  "start_clock = \<lparr> monotonic_get = 0, monotonic_set = 0, utc_now = 1735689600 \<rparr>"

definition skill_result :: "string \<Rightarrow> real \<Rightarrow> match_result" where
  "skill_result i s =
     \<lparr> result_id = i, score = s,
       factors = \<lparr> factor_embedding = 0, factor_skills = s, factor_education = 1/2,
                   factor_experience = 3/5, factor_freshness = 1/2 \<rparr> \<rparr>"

text \<open>
  From two jobs \<open>a\<close> and \<open>b\<close>, one job: its id is the cache-key component of \<open>a\<close>, the
  separator \<open>::\<close> and the id of \<open>b\<close>; its embedding and metadata are those of \<open>b\<close>.
\<close>

definition merged_job ::
  "lib \<Rightarrow> job_embedding_payload \<Rightarrow> job_embedding_payload \<Rightarrow> job_embedding_payload" where
  "merged_job l a b =
     \<lparr> job_id = Some (job_component l a @ ''::'' @ (case job_id b of None \<Rightarrow> [] | Some i \<Rightarrow> i)),
       embedding = embedding b, metadata = metadata b \<rparr>"

text \<open>A graduate and options for which a combined score of exactly \<open>1/3\<close> passes a
  minimum score of \<open>0.33333\<close>.\<close>

definition abc_graduate :: graduate_metadata where
  "abc_graduate =
     \<lparr> grad_skills = Some [''a'', ''b'', ''c''], grad_education = None,
       grad_experience_years = None, grad_latest_experience_year = None \<rparr>"

definition threshold_options :: match_options where
  "threshold_options =
     \<lparr> min_score = Some (33333 / 100000), limit = None,
       weights = Some [(''embedding'', 0), (''skills'', 1), (''education'', 0),
                       (''experience'', 0), (''freshness'', 0)] \<rparr>"

text \<open>The clock readings of a second call, 100 seconds after the first.\<close>

definition later_clock :: clock where
  "later_clock = \<lparr> monotonic_get = 100, monotonic_set = 100, utc_now = 1735689700 \<rparr>"

text \<open>
  A job updated at the first instant of 2025, options that score by freshness alone and
  keep only a combined score of 1, the result of that job at that instant, and the clock
  readings of a call 301 seconds later.
\<close>

definition fresh_job :: job_embedding_payload where
  "fresh_job =
     \<lparr> job_id = Some ''job-1'', embedding = Some zero_vector,
       metadata = Some \<lparr> job_skills = None, job_education = None,
                         job_experience_years = None,
                         job_updated_at = Some ''2025-01-01T00:00:00Z'' \<rparr> \<rparr>"

definition freshness_only :: match_options where
  "freshness_only =
     \<lparr> min_score = Some 1, limit = None,
       weights = Some [(''embedding'', 0), (''skills'', 0), (''education'', 0),
                       (''experience'', 0), (''freshness'', 1)] \<rparr>"

definition fresh_result :: match_result where
  "fresh_result =
     \<lparr> result_id = ''job-1'', score = 1,
       factors = \<lparr> factor_embedding = 0, factor_skills = 0, factor_education = 1/2,
                   factor_experience = 3/5, factor_freshness = 1 \<rparr> \<rparr>"

definition expired_clock :: clock where
  "expired_clock = \<lparr> monotonic_get = 301, monotonic_set = 301, utc_now = 1735689901 \<rparr>"




text \<open>
  Options that score by experience alone and keep every score, a graduate with four years
  of experience, a job that asks for a number of years, and the result of such a job when
  its experience score is reported as 1.
\<close>

definition experience_only :: match_options where
  "experience_only =
     \<lparr> min_score = Some 0, limit = None,
       weights = Some [(''embedding'', 0), (''skills'', 0), (''education'', 0),
                       (''experience'', 1), (''freshness'', 0)] \<rparr>"

definition four_year_graduate :: graduate_metadata where
  "four_year_graduate =
     \<lparr> grad_skills = None, grad_education = None,
       grad_experience_years = Some 4, grad_latest_experience_year = None \<rparr>"

definition experience_job :: "string \<Rightarrow> real \<Rightarrow> job_embedding_payload" where
  "experience_job i years =
     \<lparr> job_id = Some i, embedding = Some zero_vector,
       metadata = Some \<lparr> job_skills = None, job_education = None,
                         job_experience_years = Some years, job_updated_at = None \<rparr> \<rparr>"

definition experience_result :: "string \<Rightarrow> match_result" where
  "experience_result i =
     \<lparr> result_id = i, score = 1,
       factors = \<lparr> factor_embedding = 0, factor_skills = 0, factor_education = 1/2,
                   factor_experience = 1, factor_freshness = 1/2 \<rparr> \<rparr>"

text \<open>A job whose embedding has two components.\<close>

definition short_job :: job_embedding_payload where
  "short_job = \<lparr> job_id = Some ''x'', embedding = Some [0.1, 0.2], metadata = None \<rparr>"

section \<open>Properties\<close>

lemma map_of_cache_pop:
  "map_of (cache_pop key c) k = (if k = key then None else map_of c k)"
  by (induction c) (auto simp: cache_pop_def)

lemma keys_cache_pop: "fst ` set (cache_pop key c) = fst ` set c - {key}"
  by (auto simp: cache_pop_def image_iff)

lemma length_cache_pop: "length (cache_pop key c) \<le> length c"
  by (simp add: cache_pop_def)

lemma length_cache_pop_present:
  "map_of c key = Some e \<Longrightarrow> length (cache_pop key c) < length c"
  unfolding cache_pop_def
  by (rule length_filter_less [where x = "(key, e)"]) (auto dest: map_of_SomeD)

lemma distinct_cache_pop: "distinct (map fst c) \<Longrightarrow> distinct (map fst (cache_pop key c))"
  by (simp add: cache_pop_def distinct_map_filter)

lemma length_move_to_end: "length (move_to_end key c) \<le> length c"
  using length_cache_pop_present [of c key]
  by (auto simp: move_to_end_def split: option.splits)

lemma distinct_move_to_end:
  "distinct (map fst c) \<Longrightarrow> distinct (map fst (move_to_end key c))"
  by (auto simp: move_to_end_def distinct_cache_pop keys_cache_pop split: option.splits)

lemma dict_set_absent: "key \<notin> fst ` set c \<Longrightarrow> dict_set key v c = c @ [(key, v)]"
  by (induction c) auto

lemma keys_dict_set_present: "key \<in> fst ` set c \<Longrightarrow> map fst (dict_set key v c) = map fst c"
proof (induction c)
  case Nil
  then show ?case by simp
next
  case (Cons p c)
  obtain k w where p: "p = (k, w)" by (cases p)
  show ?case
  proof (cases "k = key")
    case True
    with p show ?thesis by simp
  next
    case False
    with Cons.prems p have "key \<in> fst ` set c" by auto
    with Cons.IH False p show ?thesis by simp
  qed
qed

lemma keys_dict_set:
  "map fst (dict_set key v c) = (if key \<in> fst ` set c then map fst c else map fst c @ [key])"
  by (simp add: dict_set_absent keys_dict_set_present)

lemma length_dict_set: "length (dict_set key v c) \<le> Suc (length c)"
  by (induction c) auto

lemma distinct_dict_set: "distinct (map fst c) \<Longrightarrow> distinct (map fst (dict_set key v c))"
  by (simp add: keys_dict_set)

lemma evict_suffix: "suffix (snd (evict m c)) c"
  by (induction m c rule: evict.induct) (auto simp: suffix_Cons)

lemma evict_length: "0 \<le> m \<Longrightarrow> int (length (snd (evict m c))) \<le> m"
  by (induction m c rule: evict.induct) auto

lemma distinct_evict: "distinct (map fst c) \<Longrightarrow> distinct (map fst (snd (evict m c)))"
proof -
  obtain zs where "c = zs @ snd (evict m c)"
    using evict_suffix [of m c] by (auto simp: suffix_def)
  then have "map fst c = map fst zs @ map fst (snd (evict m c))"
    by (metis map_append)
  then show "distinct (map fst c) \<Longrightarrow> distinct (map fst (snd (evict m c)))"
    by (metis distinct_append)
qed

lemma get_from_cache_length: "length (snd (get_from_cache key now c)) \<le> length c"
  by (simp add: get_from_cache_def length_cache_pop length_move_to_end split: option.splits)

lemma get_from_cache_distinct:
  "distinct (map fst c) \<Longrightarrow> distinct (map fst (snd (get_from_cache key now c)))"
  by (simp add: get_from_cache_def distinct_cache_pop distinct_move_to_end split: option.splits)

lemma set_cache_length:
  "0 \<le> MATCH_CACHE_MAX_ENTRIES cfg
   \<Longrightarrow> int (length (snd (set_cache cfg key v now c))) \<le> MATCH_CACHE_MAX_ENTRIES cfg"
  by (simp add: set_cache_def Let_def evict_length)

lemma set_cache_distinct:
  "distinct (map fst c) \<Longrightarrow> distinct (map fst (snd (set_cache cfg key v now c)))"
  by (simp add: set_cache_def Let_def distinct_evict distinct_dict_set distinct_move_to_end)

lemma apply_op_invariant:
  assumes "0 \<le> MATCH_CACHE_MAX_ENTRIES cfg"
    and "distinct (map fst c)" and "int (length c) \<le> MATCH_CACHE_MAX_ENTRIES cfg"
  shows "distinct (map fst (apply_op cfg c op))
         \<and> int (length (apply_op cfg c op)) \<le> MATCH_CACHE_MAX_ENTRIES cfg"
proof (cases op)
  case (Get key now)
  have "length (snd (get_from_cache key now c)) \<le> length c"
    by (rule get_from_cache_length)
  with assms Get show ?thesis
    by (simp add: get_from_cache_distinct)
next
  case (Set key v now)
  with assms show ?thesis
    by (simp add: set_cache_distinct set_cache_length)
qed

lemma run_ops_invariant:
  assumes "0 \<le> MATCH_CACHE_MAX_ENTRIES cfg"
  shows "distinct (map fst c) \<Longrightarrow> int (length c) \<le> MATCH_CACHE_MAX_ENTRIES cfg
    \<Longrightarrow> distinct (map fst (run_ops cfg c ops))
        \<and> int (length (run_ops cfg c ops)) \<le> MATCH_CACHE_MAX_ENTRIES cfg"
proof (induction ops arbitrary: c)
  case Nil
  then show ?case by (simp add: run_ops_def)
next
  case (Cons op ops)
  have "distinct (map fst (apply_op cfg c op))
        \<and> int (length (apply_op cfg c op)) \<le> MATCH_CACHE_MAX_ENTRIES cfg"
    using assms Cons.prems by (rule apply_op_invariant)
  then have "distinct (map fst (run_ops cfg (apply_op cfg c op) ops))
        \<and> int (length (run_ops cfg (apply_op cfg c op) ops)) \<le> MATCH_CACHE_MAX_ENTRIES cfg"
    using Cons.IH by blast
  then show ?case by (simp add: run_ops_def)
qed

text \<open>
  Claim C7. For every sequence of cache reads and writes, the cache holds at most
  \<open>MATCH_CACHE_MAX_ENTRIES\<close> entries after each operation (after every prefix of the
  sequence), and its keys stay distinct, so that the length of the list is the number of
  entries. The maximum is a count (not negative), and the cache the sequence starts from
  is within it, as the empty cache of the module is.
\<close>

theorem cache_capacity_invariant:
  assumes "0 \<le> MATCH_CACHE_MAX_ENTRIES cfg"
    and "distinct (map fst c)" and "int (length c) \<le> MATCH_CACHE_MAX_ENTRIES cfg"
  shows "distinct (map fst (run_ops cfg c (take n ops)))
         \<and> int (length (run_ops cfg c (take n ops))) \<le> MATCH_CACHE_MAX_ENTRIES cfg"
  using assms by (rule run_ops_invariant)

theorem cache_capacity_invariant_witness:
  "0 \<le> MATCH_CACHE_MAX_ENTRIES (default_config\<lparr>MATCH_CACHE_MAX_ENTRIES := 1\<rparr>)
   \<and> distinct (map fst ([] :: cache))
   \<and> int (length ([] :: cache)) \<le> MATCH_CACHE_MAX_ENTRIES (default_config\<lparr>MATCH_CACHE_MAX_ENTRIES := 1\<rparr>)
   \<and> int (length (run_ops (default_config\<lparr>MATCH_CACHE_MAX_ENTRIES := 1\<rparr>) []
                  (take 3 [Set ''a'' [] 0, Get ''a'' 1, Set ''b'' [] 2]))) \<le> 1"
  using cache_capacity_invariant
    [of "default_config\<lparr>MATCH_CACHE_MAX_ENTRIES := 1\<rparr>" "[]" 3
        "[Set ''a'' [] 0, Get ''a'' 1, Set ''b'' [] 2]"]
  by simp

text \<open>
  Claim C8. A read of a key whose entry has an expiry instant (the time of the write plus
  the TTL) before the time of the read returns no value and removes that entry; every
  other entry stays.
\<close>

theorem get_from_cache_expired:
  assumes "map_of c key = Some entry" and "expires_at entry < now"
  shows "get_from_cache key now c = (None, cache_pop key c)
         \<and> map_of (cache_pop key c) key = None
         \<and> (\<forall>k. k \<noteq> key \<longrightarrow> map_of (cache_pop key c) k = map_of c k)"
  using assms by (simp add: get_from_cache_def map_of_cache_pop)

theorem get_from_cache_expired_witness:
  "map_of [(''k'', \<lparr>entry_value = [], expires_at = 300\<rparr>)] ''k''
     = Some \<lparr>entry_value = [], expires_at = 300\<rparr>
   \<and> expires_at \<lparr>entry_value = [], expires_at = 300\<rparr> < 301
   \<and> get_from_cache ''k'' 301 [(''k'', \<lparr>entry_value = [], expires_at = 300\<rparr>)] = (None, [])"
  using get_from_cache_expired
    [of "[(''k'', \<lparr>entry_value = [], expires_at = 300\<rparr>)]" "''k''"
        "\<lparr>entry_value = [], expires_at = 300\<rparr>" 301]
  by (simp add: cache_pop_def)

lemma rounds_to_infinity_bound: "x < 2 ^ 1023 \<Longrightarrow> \<not> rounds_to_infinity x"
proof -
  assume x: "x < 2 ^ 1023"
  have "(2::real) ^ 970 \<le> 2 ^ 1023" by (rule power_increasing) simp_all
  moreover have "(2::real) ^ 1024 = 2 * 2 ^ 1023" by simp
  ultimately have "(2::real) ^ 1023 \<le> 2 ^ 1024 - 2 ^ 970" by linarith
  with x show ?thesis by (simp add: rounds_to_infinity_def)
qed

lemma not_rounds_to_infinity_small: "x \<le> 1024 \<Longrightarrow> \<not> rounds_to_infinity x"
proof -
  assume x: "x \<le> 1024"
  have "(2::real) ^ 10 < 2 ^ 1023" by (rule power_strict_increasing) simp_all
  with x have "x < 2 ^ 1023" by simp
  then show ?thesis by (rule rounds_to_infinity_bound)
qed




lemma snd_comp_pair: "snd \<circ> (\<lambda>(key, v). (key, g key v)) = (\<lambda>(key, v). g key v)"
  by (auto simp: fun_eq_iff)

lemma normalise_weights_zero:
  assumes "sum_list (map (\<lambda>(key, v). max v 0) ws) = 0"
  shows "normalise_weights ws = map (\<lambda>(key, v). (key, if key = ''embedding'' then 1 else 0)) ws"
  using assms by (simp add: normalise_weights_def snd_comp_pair)

lemma normalise_weights_overflow:
  assumes "rounds_to_infinity (sum_list (map (\<lambda>(key, v). max v 0) ws))"
  shows "normalise_weights ws = map (\<lambda>(key, v). (key, 0)) ws"
proof -
  have "\<not> rounds_to_infinity 0" by (rule not_rounds_to_infinity_small) simp
  with assms have "sum_list (map (\<lambda>(key, v). max v 0) ws) \<noteq> 0" by metis
  with assms show ?thesis
    by (simp add: normalise_weights_def snd_comp_pair Let_def split_def comp_def)
qed

lemma normalise_weights_positive:
  assumes "sum_list (map (\<lambda>(key, v). max v 0) ws) \<noteq> 0"
    and "\<not> rounds_to_infinity (sum_list (map (\<lambda>(key, v). max v 0) ws))"
  shows "normalise_weights ws =
           map (\<lambda>(key, v). (key, max v 0 / sum_list (map (\<lambda>(key, v). max v 0) ws))) ws"
  using assms by (simp add: normalise_weights_def snd_comp_pair Let_def split_def comp_def)

lemma normalise_weights_keys: "map fst (normalise_weights ws) = map fst ws"
proof (cases "sum_list (map (\<lambda>(key, v). max v 0) ws) = 0")
  case True
  then show ?thesis by (simp add: normalise_weights_zero split_def comp_def)
next
  case False
  show ?thesis
  proof (cases "rounds_to_infinity (sum_list (map (\<lambda>(key, v). max v 0) ws))")
    case True
    then show ?thesis by (simp add: normalise_weights_overflow split_def comp_def)
  next
    case no: False
    from False no show ?thesis by (simp add: normalise_weights_positive split_def comp_def)
  qed
qed




lemma dict_update_keys:
  "distinct (map fst d) \<Longrightarrow>
     distinct (map fst (dict_update d other)) \<and> fst ` set d \<subseteq> fst ` set (dict_update d other)"
proof (induction other arbitrary: d)
  case Nil
  then show ?case by (simp add: dict_update_def)
next
  case (Cons p other)
  obtain k v where p: "p = (k, v)" by (cases p)
  have d: "distinct (map fst (dict_set k v d))"
    using Cons.prems by (rule distinct_dict_set)
  have s: "fst ` set d \<subseteq> fst ` set (dict_set k v d)"
    using keys_dict_set [of k v d] by (metis (no_types, lifting) list.set_map set_append subset_refl sup.coboundedI1)
  from Cons.IH [OF d] s p show ?case
    by (auto simp: dict_update_def)
qed

lemma weights_input_keys:
  "distinct (map fst (weights_input cfg options))
   \<and> {''embedding'', ''skills'', ''education'', ''experience'', ''freshness''}
       \<subseteq> fst ` set (weights_input cfg options)"
proof -
  have d: "distinct (map fst (DEFAULT_WEIGHTS cfg))"
    by (simp add: DEFAULT_WEIGHTS_def)
  have k: "fst ` set (DEFAULT_WEIGHTS cfg)
             = {''embedding'', ''skills'', ''education'', ''experience'', ''freshness''}"
    by (simp add: DEFAULT_WEIGHTS_def)
  show ?thesis
    using d k dict_update_keys [OF d]
    by (auto simp: weights_input_def split: option.splits)
qed








lemma score_job_result:
  assumes "score_job l cfg now g gm minimum ws job = Inr (Some r)"
  shows "job_id job = Some (result_id r)
         \<and> (\<exists>x. job_combined_score l cfg now g gm ws job = Inr x
                 \<and> minimum \<le> x \<and> score r = round4 x)"
proof -
  let ?md = "case metadata job of None \<Rightarrow> empty_job_metadata | Some m \<Rightarrow> m"
  from assms obtain i where i: "job_id job = Some i" "i \<noteq> []"
    by (cases "job_id job") (auto simp: score_job_def split: if_splits)
  from assms i obtain e where e: "embedding job = Some e"
    by (cases "embedding job") (auto simp: score_job_def)
  from assms i e obtain f where f: "job_factors l cfg now g gm e ?md = Inr f"
    by (cases "job_factors l cfg now g gm e ?md") (auto simp: score_job_def)
  from assms i e f obtain x where x: "combined_score ws f = Inr x"
    by (cases "combined_score ws f") (auto simp: score_job_def)
  from assms i e f x have "minimum \<le> x"
    and "r = \<lparr> result_id = i, score = round4 x, factors = round_factors f \<rparr>"
    by (auto simp: score_job_def split: if_splits)
  with i e f x show ?thesis
    by (simp add: job_combined_score_def)
qed

lemma score_jobs_ids:
  "score_jobs l cfg now g gm minimum ws jobs = Inr results
   \<Longrightarrow> subseq (map (\<lambda>m. Some (result_id m)) results) (map job_id jobs)"
proof (induction jobs arbitrary: results)
  case Nil
  then show ?case by simp
next
  case (Cons job rest)
  from Cons.prems obtain r rs where
    r: "score_job l cfg now g gm minimum ws job = Inr r"
    and rs: "score_jobs l cfg now g gm minimum ws rest = Inr rs"
    and res: "results = (case r of None \<Rightarrow> rs | Some m \<Rightarrow> m # rs)"
    by (auto split: sum.splits)
  have ih: "subseq (map (\<lambda>m. Some (result_id m)) rs) (map job_id rest)"
    using Cons.IH rs by blast
  show ?case
  proof (cases r)
    case None
    with res ih show ?thesis by auto
  next
    case (Some m)
    with r have "job_id job = Some (result_id m)"
      using score_job_result by blast
    with Some res ih show ?thesis by simp
  qed
qed

lemma score_jobs_threshold:
  "score_jobs l cfg now g gm minimum ws jobs = Inr results \<Longrightarrow> r \<in> set results
   \<Longrightarrow> \<exists>job \<in> set jobs. job_id job = Some (result_id r)
         \<and> (\<exists>x. job_combined_score l cfg now g gm ws job = Inr x
                 \<and> minimum \<le> x \<and> score r = round4 x)"
proof (induction jobs arbitrary: results)
  case Nil
  then show ?case by simp
next
  case (Cons job rest)
  from Cons.prems obtain r0 rs where
    r0: "score_job l cfg now g gm minimum ws job = Inr r0"
    and rs: "score_jobs l cfg now g gm minimum ws rest = Inr rs"
    and res: "results = (case r0 of None \<Rightarrow> rs | Some m \<Rightarrow> m # rs)"
    by (auto split: sum.splits)
  show ?case
  proof (cases "r \<in> set rs")
    case True
    with Cons.IH rs show ?thesis by fastforce
  next
    case False
    with res Cons.prems(2) have "r0 = Some r" by (cases r0) auto
    with r0 show ?thesis using score_job_result by fastforce
  qed
qed

lemma rank_sorted: "sorted_wrt (\<lambda>a b. score b \<le> score a) (rank n results)"
proof -
  have "sorted (map (\<lambda>item. - score item) (sort_key (\<lambda>item. - score item) results))"
    by (rule sorted_sort_key)
  then have "sorted_wrt (\<lambda>a b. score b \<le> score a) (sort_key (\<lambda>item. - score item) results)"
    by (simp add: sorted_map)
  then show ?thesis
    by (simp add: rank_def Let_def)
qed

lemma rank_stable:
  "prefix (filter (\<lambda>r. score r = s) (rank n results)) (filter (\<lambda>r. score r = s) results)"
proof -
  have "filter (\<lambda>r. - score r = - s) (sort_key (\<lambda>item. - score item) results)
          = filter (\<lambda>r. - score r = - s) results"
    by (rule sort_key_stable)
  then have eq: "filter (\<lambda>r. score r = s) (sort_key (\<lambda>item. - score item) results)
          = filter (\<lambda>r. score r = s) results"
    by simp
  have "prefix (rank n results) (sort_key (\<lambda>item. - score item) results)"
    by (simp add: rank_def Let_def take_is_prefix)
  then have "prefix (filter (\<lambda>r. score r = s) (rank n results))
               (filter (\<lambda>r. score r = s) (sort_key (\<lambda>item. - score item) results))"
    by (rule filter_mono_prefix)
  with eq show ?thesis by simp
qed

lemma rank_subset: "set (rank n results) \<subseteq> set results"
  by (auto simp: rank_def Let_def dest: in_set_takeD)

lemma deduplicate_loop_keep:
  assumes "job_id job = Some i" and "i \<noteq> []" and "embedding job = Some e"
    and "i \<notin> fst ` set acc"
  shows "deduplicate_loop acc (job # rest) = deduplicate_loop (acc @ [(i, job)]) rest"
  using assms by simp

lemma deduplicate_loop_skip:
  assumes "\<not> (\<exists>i e. job_id job = Some i \<and> i \<noteq> [] \<and> embedding job = Some e
                     \<and> i \<notin> fst ` set acc)"
  shows "deduplicate_loop acc (job # rest) = deduplicate_loop acc rest"
proof (cases "job_id job")
  case None
  then show ?thesis by simp
next
  case (Some i)
  with assms show ?thesis by (cases "embedding job") auto
qed

lemma deduplicate_loop_invariant:
  "distinct (map fst acc) \<Longrightarrow> \<forall>(i, job) \<in> set acc. job_id job = Some i
   \<Longrightarrow> distinct (map fst (deduplicate_loop acc jobs))
       \<and> (\<forall>(i, job) \<in> set (deduplicate_loop acc jobs). job_id job = Some i)"
proof (induction jobs arbitrary: acc)
  case Nil
  then show ?case by simp
next
  case (Cons job rest)
  show ?case
  proof (cases "\<exists>i e. job_id job = Some i \<and> i \<noteq> [] \<and> embedding job = Some e
                    \<and> i \<notin> fst ` set acc")
    case True
    then obtain i e where i: "job_id job = Some i" "i \<noteq> []" "embedding job = Some e"
      "i \<notin> fst ` set acc" by blast
    have d: "distinct (map fst (acc @ [(i, job)]))"
      using Cons.prems(1) i(4) by (simp add: image_iff)
    have k: "\<forall>(k, j) \<in> set (acc @ [(i, job)]). job_id j = Some k"
      using Cons.prems(2) i(1) by auto
    have "deduplicate_loop acc (job # rest) = deduplicate_loop (acc @ [(i, job)]) rest"
      using i by (rule deduplicate_loop_keep)
    with Cons.IH [OF d k] show ?thesis by metis
  next
    case False
    then have "deduplicate_loop acc (job # rest) = deduplicate_loop acc rest"
      by (rule deduplicate_loop_skip)
    with Cons.IH [OF Cons.prems] show ?thesis by metis
  qed
qed

lemma map_job_id_values:
  "\<forall>(i, job) \<in> set d. job_id job = Some i \<Longrightarrow> map job_id (map snd d) = map Some (map fst d)"
  by (induction d) auto

lemma deduplicate_jobs_distinct: "distinct (map job_id (deduplicate_jobs jobs))"
proof -
  let ?d = "deduplicate_loop [] jobs"
  have inv: "distinct (map fst ?d) \<and> (\<forall>(i, job) \<in> set ?d. job_id job = Some i)"
    by (rule deduplicate_loop_invariant) simp_all
  then have "map job_id (map snd ?d) = map Some (map fst ?d)"
    using map_job_id_values by blast
  moreover have "distinct (map Some (map fst ?d))"
    using inv by (simp only: distinct_map) (simp add: inj_on_def)
  ultimately show ?thesis
    by (simp only: deduplicate_jobs_def)
qed

subsection \<open>The skills scorer\<close>

text \<open>
  On a list without a blank skill the set that the comprehension of \<open>_skills_similarity\<close>
  builds is the set of the specification.
\<close>

lemma strip_Nil: "strip [] = []"
  by (simp add: strip_def)

lemma lower_Nil_iff: "lower s = [] \<longleftrightarrow> s = []"
  by (simp add: lower_def)

lemma skill_set_claimed:
  assumes "\<forall>skill \<in> set skills. \<not> blank skill"
  shows "skill_set skills = claimed_skill_set skills"
proof -
  have "\<And>skill. skill \<in> set skills \<Longrightarrow> (lower (strip skill) \<noteq> []) = (skill \<noteq> [])"
    using assms by (auto simp: blank_def lower_Nil_iff strip_Nil)
  then have "filter (\<lambda>skill. lower (strip skill) \<noteq> []) skills
               = filter (\<lambda>skill. skill \<noteq> []) skills"
    by (simp cong: filter_cong)
  then show ?thesis
    by (simp add: skill_set_def claimed_skill_set_def filter_map comp_def)
qed

text \<open>
  Claim C1, amended. Let \<open>G\<close> and \<open>J\<close> be the sets of the specification (every skill
  trimmed and lowercased, the empty strings then filtered out) of the graduate and the job
  list. For every graduate list and job list without a blank skill, \<open>_skills_similarity\<close>
  returns 0 when the graduate list is absent or empty; else 0.5 when the job list is absent
  or empty; else 0 when \<open>G\<close> or \<open>J\<close> is empty; else the Jaccard index
  \<open>|G \<inter> J| / |G \<union> J|\<close>. The first two tests are on the lists, not on the sets.
\<close>

theorem skills_similarity_without_blank_skills:
  assumes "\<forall>skills \<in> set_option graduate. \<forall>skill \<in> set skills. \<not> blank skill"
    and "\<forall>skills \<in> set_option job. \<forall>skill \<in> set skills. \<not> blank skill"
  shows "skills_similarity graduate job =
     (if graduate = None \<or> graduate = Some [] then 0
      else if job = None \<or> job = Some [] then 1 / 2
      else if claimed_skill_set (the graduate) = {} \<or> claimed_skill_set (the job) = {} then 0
      else real (card (claimed_skill_set (the graduate) \<inter> claimed_skill_set (the job)))
           / real (card (claimed_skill_set (the graduate) \<union> claimed_skill_set (the job))))"
proof (cases graduate)
  case None
  then show ?thesis by (simp add: skills_similarity_def)
next
  case g: (Some graduate_list)
  show ?thesis
  proof (cases job)
    case None
    with g show ?thesis by (simp add: skills_similarity_def)
  next
    case j: (Some job_list)
    from assms(1) g have "skill_set graduate_list = claimed_skill_set graduate_list"
      by (simp add: skill_set_claimed)
    moreover from assms(2) j have "skill_set job_list = claimed_skill_set job_list"
      by (simp add: skill_set_claimed)
    ultimately show ?thesis
      using g j by (simp add: skills_similarity_def Let_def)
  qed
qed

theorem skills_similarity_without_blank_skills_witness:
  "claimed_skill_set [''React'', '' TypeScript ''] = {''react'', ''typescript''}
   \<and> claimed_skill_set [''react'', '''', ''Go''] = {''react'', ''go''}
   \<and> skills_similarity (Some [''React'', '' TypeScript '']) (Some [''react'', '''', ''Go''])
       = 1 / 3"
proof -
  have s: "lower (strip ''React'') = ''react''" "lower (strip '' TypeScript '') = ''typescript''"
    "lower (strip ''react'') = ''react''" "lower (strip ''Go'') = ''go''"
    "strip ''React'' \<noteq> []" "strip '' TypeScript '' \<noteq> []" "strip ''react'' \<noteq> []"
    "strip ''Go'' \<noteq> []"
    by (simp_all add: lower_def strip_def is_space_def lower_char_def upper_letters_def
          lower_letters_def)
  have g: "claimed_skill_set [''React'', '' TypeScript ''] = {''react'', ''typescript''}"
    by (simp add: claimed_skill_set_def s)
  have j: "claimed_skill_set [''react'', '''', ''Go''] = {''react'', ''go''}"
    by (simp add: claimed_skill_set_def s strip_Nil lower_Nil_iff)
  have c: "card ({''react'', ''typescript''} \<inter> {''react'', ''go''}) = 1"
    "card ({''react'', ''typescript''} \<union> {''react'', ''go''}) = 3"
    by (simp_all add: card_insert_if)
  from skills_similarity_without_blank_skills
         [of "Some [''React'', '' TypeScript '']" "Some [''react'', '''', ''Go'']"]
  have "skills_similarity (Some [''React'', '' TypeScript '']) (Some [''react'', '''', ''Go''])
       = 1 / 3"
    unfolding option.sel g j c by (simp add: blank_def s)
  with g j show ?thesis by (simp only: simp_thms)
qed

text \<open>
  Claim C1 as stated tests \<open>G\<close> and \<open>J\<close> themselves: for a non-empty \<open>G\<close> and an empty
  \<open>J\<close> it gives 0.5. A job list that holds only the empty string is not empty and has an
  empty \<open>J\<close>: the tests \<^verbatim>\<open>not job\<close> and \<^verbatim>\<open>not job_set\<close> of the code return 0 for it.
\<close>

theorem skills_similarity_counterexample:
  "claimed_skill_set [''python''] = {''python''} \<and> claimed_skill_set [''''] = {}
   \<and> skills_similarity (Some [''python'']) (Some ['''']) = 0"
  by (simp add: skills_similarity_def skill_set_def claimed_skill_set_def lower_def strip_def
        is_space_def lower_char_def upper_letters_def lower_letters_def)

text \<open>
  A blank skill is outside the theorem above. The comprehension applies its filter
  \<^verbatim>\<open>if skill\<close> before it strips, so a blank skill passes and leaves the empty string in the
  set, where \<open>_education_similarity\<close> tests its labels after it has stripped them: for the
  graduate skills \<^verbatim>\<open>[" ", "a"]\<close> and the job skills \<^verbatim>\<open>["a"]\<close> the code returns 0.5, and the
  Jaccard index of the sets of the specification is 1.
\<close>

lemma blank_skill_kept:
  "blank '' '' \<and> claimed_skill_set ['' '', ''a''] = {''a''}
   \<and> skill_set ['' '', ''a''] = {'''', ''a''}
   \<and> skills_similarity (Some ['' '', ''a'']) (Some [''a'']) = 1 / 2"
  by (simp add: skills_similarity_def skill_set_def claimed_skill_set_def blank_def lower_def
        strip_def is_space_def lower_char_def upper_letters_def lower_letters_def
        card_insert_if)

text \<open>Trimming and lowercasing beyond ASCII: a no-break space is whitespace, and the capital
  letters of Latin-1 have lowercase forms.\<close>

lemma skills_similarity_latin1:
  "strip (''python'' @ [CHR 0xA0]) = ''python'' \<and> strip (CHR 0x85 # ''python'') = ''python''
   \<and> lower [CHR 0xC9, CHR 0xD7, CHR 0xDE, CHR 0xDF] = [CHR 0xE9, CHR 0xD7, CHR 0xFE, CHR 0xDF]
   \<and> skills_similarity (Some [''Python'' @ [CHR 0xA0]]) (Some [''python'']) = 1"
  by (simp add: skills_similarity_def skill_set_def lower_def strip_def is_space_def
        lower_char_def upper_letters_def lower_letters_def)

subsection \<open>The orchestrator\<close>

lemma validate_vector_ok: "length v = EMBEDDING_DIMENSION \<Longrightarrow> validate_vector v = Inr v"
  by (simp add: validate_vector_def)

lemma length_zero_vector: "length zero_vector = EMBEDDING_DIMENSION"
  by (simp add: zero_vector_def)

lemma norm2_zero_vector: "norm2 zero_vector = 0"
  by (simp add: norm2_def zero_vector_def sum_list_replicate)

lemma cosine_zero_vector:
  "length v = EMBEDDING_DIMENSION \<Longrightarrow> cosine_similarity zero_vector v = Inr 0"
  by (simp add: cosine_similarity_def validate_vector_ok length_zero_vector norm2_zero_vector)

lemma round4_0: "round4 0 = 0" by (simp add: round4_def round_half_even_def)
lemma round4_1: "round4 1 = 1" by (simp add: round4_def round_half_even_def)
lemma round4_half: "round4 (1/2) = 1/2" by (simp add: round4_def round_half_even_def)
lemma round4_06: "round4 (3/5) = 3/5" by (simp add: round4_def round_half_even_def)

lemma dedup_three: "deduplicate_jobs three_jobs = three_jobs"
  by (simp add: deduplicate_jobs_def three_jobs_def skill_job_def)

lemma prepare_skills_only:
  "prepare_options default_config (Some skills_only)
     = (0, 5, [(''embedding'', 0), (''skills'', 1), (''education'', 0),
               (''experience'', 0), (''freshness'', 0)])"
  by (simp add: prepare_options_def skills_only_def weights_input_def DEFAULT_WEIGHTS_def
        dict_update_def normalise_weights_def not_rounds_to_infinity_small)

lemma factors_skill_job:
  "job_factors l cfg now zero_vector (Some python_graduate) zero_vector
      \<lparr> job_skills = Some skills, job_education = None,
        job_experience_years = None, job_updated_at = None \<rparr>
   = Inr \<lparr> factor_embedding = 0,
           factor_skills = skills_similarity (Some [''Python'']) (Some skills),
           factor_education = 1/2, factor_experience = 3/5, factor_freshness = 1/2 \<rparr>"
  by (simp add: job_factors_def cosine_zero_vector length_zero_vector python_graduate_def
        education_similarity_def experience_similarity_def freshness_score_def)

lemma combined_skills_only:
  "combined_score [(''embedding'', 0), (''skills'', 1), (''education'', 0),
       (''experience'', 0), (''freshness'', 0)] f = Inr (factor_skills f)"
  by (simp add: combined_score_def weight_def)

lemma skills_python_go: "skills_similarity (Some [''Python'']) (Some [''go'']) = 0"
  by (simp add: skills_similarity_def skill_set_def lower_def strip_def is_space_def
        lower_char_def upper_letters_def lower_letters_def)

lemma skills_python_python: "skills_similarity (Some [''Python'']) (Some [''python'']) = 1"
  by (simp add: skills_similarity_def skill_set_def lower_def strip_def is_space_def
        lower_char_def upper_letters_def lower_letters_def)

lemma skills_python_rust: "skills_similarity (Some [''Python'']) (Some [''rust'']) = 0"
  by (simp add: skills_similarity_def skill_set_def lower_def strip_def is_space_def
        lower_char_def upper_letters_def lower_letters_def)

lemma score_three_jobs:
  "score_jobs l default_config now zero_vector (Some python_graduate) 0
      [(''embedding'', 0), (''skills'', 1), (''education'', 0), (''experience'', 0),
       (''freshness'', 0)] three_jobs
   = Inr [\<lparr> result_id = ''job-1'', score = 0,
            factors = \<lparr> factor_embedding = 0, factor_skills = 0, factor_education = 1/2,
                        factor_experience = 3/5, factor_freshness = 1/2 \<rparr> \<rparr>,
          \<lparr> result_id = ''job-2'', score = 1,
            factors = \<lparr> factor_embedding = 0, factor_skills = 1, factor_education = 1/2,
                        factor_experience = 3/5, factor_freshness = 1/2 \<rparr> \<rparr>,
          \<lparr> result_id = ''job-3'', score = 0,
            factors = \<lparr> factor_embedding = 0, factor_skills = 0, factor_education = 1/2,
                        factor_experience = 3/5, factor_freshness = 1/2 \<rparr> \<rparr>]"
  by (simp add: three_jobs_def skill_job_def score_job_def factors_skill_job
        combined_skills_only skills_python_go skills_python_python skills_python_rust
        round_factors_def round4_0 round4_1 round4_half round4_06)

lemma evict_no_error: "0 \<le> m \<Longrightarrow> fst (evict m c) = None"
  by (induction m c rule: evict.induct) auto

lemma set_cache_no_error:
  "0 \<le> MATCH_CACHE_MAX_ENTRIES cfg \<Longrightarrow> fst (set_cache cfg key v now c) = None"
  by (simp add: set_cache_def Let_def evict_no_error)

lemma compute_matches_invalid_graduate:
  assumes "length g \<noteq> EMBEDDING_DIMENSION"
  shows "compute_matches l cfg clk c g jobs gm opts
           = (Inl (Failed_to_compute_matches
                     (DimensionMismatch EMBEDDING_DIMENSION (length g))), c)"
  using assms by (simp add: compute_matches_def validate_vector_def)

lemma compute_matches_no_jobs_valid:
  assumes "length g = EMBEDDING_DIMENSION" and "deduplicate_jobs jobs = []"
  shows "compute_matches l cfg clk c g jobs gm opts = (Inr [], c)"
  using assms by (simp add: compute_matches_def validate_vector_def)

lemma compute_matches_hit:
  assumes "length g = EMBEDDING_DIMENSION" and "deduplicate_jobs jobs \<noteq> []"
    and "get_from_cache (build_cache_key l g (deduplicate_jobs jobs) gm opts)
           (monotonic_get clk) c = (Some cached, c1)"
  shows "compute_matches l cfg clk c g jobs gm opts = (Inr cached, c1)"
  using assms by (simp add: compute_matches_def validate_vector_def)

lemma compute_matches_miss:
  assumes "length g = EMBEDDING_DIMENSION" and "deduplicate_jobs jobs \<noteq> []"
    and "get_from_cache (build_cache_key l g (deduplicate_jobs jobs) gm opts)
           (monotonic_get clk) c = (None, c1)"
    and "prepare_options cfg opts = (minimum, max_results, ws)"
  shows "compute_matches l cfg clk c g jobs gm opts =
           (case score_jobs l cfg (utc_now clk) g gm minimum ws (deduplicate_jobs jobs) of
              Inl e \<Rightarrow> (Inl (Failed_to_compute_matches e), c1)
            | Inr results \<Rightarrow>
                (case set_cache cfg (build_cache_key l g (deduplicate_jobs jobs) gm opts)
                        (rank max_results results) (monotonic_set clk) c1 of
                   (Some e, c2) \<Rightarrow> (Inl (Failed_to_compute_matches e), c2)
                 | (None, c2) \<Rightarrow> (Inr (rank max_results results), c2)))"
  using assms by (simp add: compute_matches_def validate_vector_def Let_def split: sum.splits)

lemma compute_matches_computed:
  assumes "compute_matches l cfg clk c g jobs gm opts = (Inr res, c')"
    and "fst (get_from_cache (build_cache_key l g (deduplicate_jobs jobs) gm opts)
                (monotonic_get clk) c) = None"
  shows "\<exists>results.
           score_jobs l cfg (utc_now clk) g gm (fst (prepare_options cfg opts))
             (snd (snd (prepare_options cfg opts))) (deduplicate_jobs jobs) = Inr results
           \<and> res = rank (fst (snd (prepare_options cfg opts))) results"
proof (cases "deduplicate_jobs jobs = []")
  case True
  have "length g = EMBEDDING_DIMENSION"
    using assms(1) compute_matches_invalid_graduate [of g l cfg clk c jobs gm opts]
    by (cases "length g = EMBEDDING_DIMENSION") auto
  with True assms(1) have "res = []"
    by (simp add: compute_matches_no_jobs_valid)
  with True show ?thesis by (simp add: rank_def)
next
  case False
  have len: "length g = EMBEDDING_DIMENSION"
    using assms(1) compute_matches_invalid_graduate [of g l cfg clk c jobs gm opts]
    by (cases "length g = EMBEDDING_DIMENSION") auto
  obtain c1 where g1: "get_from_cache (build_cache_key l g (deduplicate_jobs jobs) gm opts)
           (monotonic_get clk) c = (None, c1)"
    using assms(2) by (metis prod.collapse)
  obtain minimum max_results ws where po: "prepare_options cfg opts = (minimum, max_results, ws)"
    by (metis prod.collapse)
  note cm = compute_matches_miss [OF len False g1 po]
  show ?thesis
  proof (cases "score_jobs l cfg (utc_now clk) g gm minimum ws (deduplicate_jobs jobs)")
    case (Inl e)
    with cm assms(1) show ?thesis by simp
  next
    case (Inr results)
    obtain eo c2 where sc: "set_cache cfg (build_cache_key l g (deduplicate_jobs jobs) gm opts)
                        (rank max_results results) (monotonic_set clk) c1 = (eo, c2)"
      by (metis prod.collapse)
    from cm assms(1) Inr sc have "res = rank max_results results"
      by (cases eo) auto
    with Inr po show ?thesis by simp
  qed
qed

text \<open>
  The threshold and the rounding, for the finite scores of the model: every result of a list
  that \<open>compute_matches\<close> computes belongs to a deduplicated job whose unrounded combined
  score is at least the effective minimum score, and the score of the result is that
  combined score rounded to 4 places. (A combined score that is NaN is not below the minimum
  score in the comparison of the source either, and is outside the model.)
\<close>

lemma computed_score_passes_threshold:
  assumes "compute_matches l cfg clk c g jobs gm opts = (Inr res, c')"
    and "fst (get_from_cache (build_cache_key l g (deduplicate_jobs jobs) gm opts)
                (monotonic_get clk) c) = None"
    and "r \<in> set res"
  shows "\<exists>job \<in> set (deduplicate_jobs jobs). job_id job = Some (result_id r)
         \<and> (\<exists>x. job_combined_score l cfg (utc_now clk) g gm
                    (snd (snd (prepare_options cfg opts))) job = Inr x
                \<and> fst (prepare_options cfg opts) \<le> x \<and> score r = round4 x)"
proof -
  from compute_matches_computed [OF assms(1,2)] obtain results where
    sj: "score_jobs l cfg (utc_now clk) g gm (fst (prepare_options cfg opts))
             (snd (snd (prepare_options cfg opts))) (deduplicate_jobs jobs) = Inr results"
    and res: "res = rank (fst (snd (prepare_options cfg opts))) results"
    by blast
  from assms(3) res have "r \<in> set results"
    using rank_subset by blast
  with sj show ?thesis
    by (rule score_jobs_threshold)
qed

text \<open>
  Claim C4, amended. When \<open>compute_matches\<close> computes its result list (the cache read is
  a miss), the list is ordered by the score that the results report, descending; the score
  a result reports is the combined score of its job rounded to 4 places, the key of the
  sort in the source; and the results of equal reported score are in the order of their
  jobs in the deduplicated input: for every score, the ids of the results with that score
  are a subsequence of the ids of the deduplicated jobs, which are distinct. Scores are
  finite here; a list that holds a NaN score is outside the statement.
\<close>

theorem results_ranked_by_score:
  assumes "compute_matches l cfg clk c g jobs gm opts = (Inr res, c')"
    and "fst (get_from_cache (build_cache_key l g (deduplicate_jobs jobs) gm opts)
                (monotonic_get clk) c) = None"
  shows "sorted_wrt (\<lambda>a b. score b \<le> score a) res
         \<and> (\<forall>r \<in> set res. \<exists>job \<in> set (deduplicate_jobs jobs).
                job_id job = Some (result_id r)
                \<and> (\<exists>x. job_combined_score l cfg (utc_now clk) g gm
                           (snd (snd (prepare_options cfg opts))) job = Inr x
                       \<and> score r = round4 x))
         \<and> distinct (map job_id (deduplicate_jobs jobs))
         \<and> (\<forall>s. subseq (map (\<lambda>m. Some (result_id m)) (filter (\<lambda>r. score r = s) res))
                        (map job_id (deduplicate_jobs jobs)))"
proof -
  from compute_matches_computed [OF assms] obtain results where
    sj: "score_jobs l cfg (utc_now clk) g gm (fst (prepare_options cfg opts))
             (snd (snd (prepare_options cfg opts))) (deduplicate_jobs jobs) = Inr results"
    and res: "res = rank (fst (snd (prepare_options cfg opts))) results"
    by blast
  have ids: "subseq (map (\<lambda>m. Some (result_id m)) results) (map job_id (deduplicate_jobs jobs))"
    using sj by (rule score_jobs_ids)
  have stable: "\<forall>s. subseq (map (\<lambda>m. Some (result_id m)) (filter (\<lambda>r. score r = s) res))
                        (map job_id (deduplicate_jobs jobs))"
  proof
    fix s
    have "prefix (filter (\<lambda>r. score r = s) res) (filter (\<lambda>r. score r = s) results)"
      unfolding res by (rule rank_stable)
    then have "subseq (filter (\<lambda>r. score r = s) res) (filter (\<lambda>r. score r = s) results)"
      by (rule prefix_imp_subseq)
    moreover have "subseq (filter (\<lambda>r. score r = s) results) results"
      by simp
    ultimately have "subseq (filter (\<lambda>r. score r = s) res) results"
      by (rule subseq_order.trans)
    then have "subseq (map (\<lambda>m. Some (result_id m)) (filter (\<lambda>r. score r = s) res))
                 (map (\<lambda>m. Some (result_id m)) results)"
      by (rule subseq_map)
    then show "subseq (map (\<lambda>m. Some (result_id m)) (filter (\<lambda>r. score r = s) res))
                 (map job_id (deduplicate_jobs jobs))"
      using ids by (rule subseq_order.trans)
  qed
  have rounded: "\<forall>r \<in> set res. \<exists>job \<in> set (deduplicate_jobs jobs).
                job_id job = Some (result_id r)
                \<and> (\<exists>x. job_combined_score l cfg (utc_now clk) g gm
                           (snd (snd (prepare_options cfg opts))) job = Inr x
                       \<and> score r = round4 x)"
  proof
    fix r
    assume "r \<in> set res"
    from computed_score_passes_threshold [OF assms this]
    show "\<exists>job \<in> set (deduplicate_jobs jobs).
                job_id job = Some (result_id r)
                \<and> (\<exists>x. job_combined_score l cfg (utc_now clk) g gm
                           (snd (snd (prepare_options cfg opts))) job = Inr x
                       \<and> score r = round4 x)"
      by blast
  qed
  have ordered: "sorted_wrt (\<lambda>a b. score b \<le> score a) res"
    unfolding res by (rule rank_sorted)
  from ordered rounded deduplicate_jobs_distinct [of jobs] stable show ?thesis
    by (simp only: simp_thms)
qed

text \<open>
  Claim C9, as the code has it. For every input whose job list deduplicates to the empty
  list, \<open>compute_matches\<close> leaves the cache as it was, and returns the empty list when the
  graduate embedding has \<open>EMBEDDING_DIMENSION\<close> components; the graduate embedding is
  validated first, so that with another length the call raises the dimension error.
\<close>

theorem compute_matches_no_jobs:
  assumes "deduplicate_jobs jobs = []"
  shows "compute_matches l cfg clk c g jobs gm opts
           = (if length g = EMBEDDING_DIMENSION then Inr []
              else Inl (Failed_to_compute_matches
                          (DimensionMismatch EMBEDDING_DIMENSION (length g))), c)"
  using assms
  by (simp add: compute_matches_invalid_graduate compute_matches_no_jobs_valid)

lemma get_from_empty_cache: "get_from_cache key now [] = (None, [])"
  by (simp add: get_from_cache_def)

lemma set_cache_empty:
  "0 \<le> MATCH_CACHE_MAX_ENTRIES cfg \<Longrightarrow> MATCH_CACHE_MAX_ENTRIES cfg \<noteq> 0 \<Longrightarrow>
   set_cache cfg key v now [] =
     (None, [(key, \<lparr> entry_value = v,
                      expires_at = now + of_int (MATCH_CACHE_TTL_SECONDS cfg) \<rparr>)])"
  by (simp add: set_cache_def)

lemma three_jobs_ranked:
  "compute_matches l default_config start_clock [] zero_vector three_jobs
      (Some python_graduate) (Some skills_only)
   = (Inr [skill_result ''job-2'' 1, skill_result ''job-1'' 0, skill_result ''job-3'' 0],
      [(build_cache_key l zero_vector three_jobs (Some python_graduate) (Some skills_only),
        \<lparr> entry_value = [skill_result ''job-2'' 1, skill_result ''job-1'' 0,
                          skill_result ''job-3'' 0],
          expires_at = 300 \<rparr>)])"
proof -
  have ne: "deduplicate_jobs three_jobs \<noteq> []"
    by (simp add: dedup_three) (simp add: three_jobs_def)
  have g: "get_from_cache
             (build_cache_key l zero_vector (deduplicate_jobs three_jobs)
                (Some python_graduate) (Some skills_only))
             (monotonic_get start_clock) [] = (None, [])"
    by (rule get_from_empty_cache)
  have r: "rank 5 [skill_result ''job-1'' 0, skill_result ''job-2'' 1, skill_result ''job-3'' 0]
             = [skill_result ''job-2'' 1, skill_result ''job-1'' 0, skill_result ''job-3'' 0]"
    by (simp add: rank_def skill_result_def)
  have s: "score_jobs l default_config (utc_now start_clock) zero_vector (Some python_graduate) 0
      [(''embedding'', 0), (''skills'', 1), (''education'', 0), (''experience'', 0),
       (''freshness'', 0)] three_jobs
      = Inr [skill_result ''job-1'' 0, skill_result ''job-2'' 1, skill_result ''job-3'' 0]"
    by (simp only: score_three_jobs skill_result_def)
  have c: "set_cache default_config k v (monotonic_set start_clock) []
             = (None, [(k, \<lparr> entry_value = v, expires_at = 300 \<rparr>)])" for k v
    by (simp add: set_cache_empty default_config_def start_clock_def)
  show ?thesis
    unfolding compute_matches_miss [OF length_zero_vector ne g prepare_skills_only]
    by (simp add: s r c dedup_three)
qed

theorem results_ranked_by_score_witness:
  "fst (compute_matches plain_lib default_config start_clock [] zero_vector three_jobs
          (Some python_graduate) (Some skills_only))
     = Inr [skill_result ''job-2'' 1, skill_result ''job-1'' 0, skill_result ''job-3'' 0]
   \<and> map job_id (deduplicate_jobs three_jobs) = [Some ''job-1'', Some ''job-2'', Some ''job-3'']
   \<and> sorted_wrt (\<lambda>a b. score b \<le> score a)
        [skill_result ''job-2'' 1, skill_result ''job-1'' 0, skill_result ''job-3'' 0]
   \<and> subseq (map (\<lambda>m. Some (result_id m))
        (filter (\<lambda>r. score r = 0)
           [skill_result ''job-2'' 1, skill_result ''job-1'' 0, skill_result ''job-3'' 0]))
        (map job_id (deduplicate_jobs three_jobs))"
proof -
  have m: "fst (get_from_cache
             (build_cache_key plain_lib zero_vector (deduplicate_jobs three_jobs)
                (Some python_graduate) (Some skills_only))
             (monotonic_get start_clock) []) = None"
    by (simp add: get_from_empty_cache)
  have d: "map job_id (deduplicate_jobs three_jobs)
             = [Some ''job-1'', Some ''job-2'', Some ''job-3'']"
    by (simp add: dedup_three) (simp add: three_jobs_def skill_job_def)
  have f: "fst (compute_matches plain_lib default_config start_clock [] zero_vector three_jobs
          (Some python_graduate) (Some skills_only))
     = Inr [skill_result ''job-2'' 1, skill_result ''job-1'' 0, skill_result ''job-3'' 0]"
    by (simp add: three_jobs_ranked)
  from results_ranked_by_score [OF three_jobs_ranked [of plain_lib] m]
  have "sorted_wrt (\<lambda>a b. score b \<le> score a)
          [skill_result ''job-2'' 1, skill_result ''job-1'' 0, skill_result ''job-3'' 0]"
    and "\<forall>s. subseq (map (\<lambda>m. Some (result_id m))
          (filter (\<lambda>r. score r = s)
             [skill_result ''job-2'' 1, skill_result ''job-1'' 0, skill_result ''job-3'' 0]))
          (map job_id (deduplicate_jobs three_jobs))"
    by (simp_all only: simp_thms)
  then have "sorted_wrt (\<lambda>a b. score b \<le> score a)
          [skill_result ''job-2'' 1, skill_result ''job-1'' 0, skill_result ''job-3'' 0]"
    and "subseq (map (\<lambda>m. Some (result_id m))
          (filter (\<lambda>r. score r = 0)
             [skill_result ''job-2'' 1, skill_result ''job-1'' 0, skill_result ''job-3'' 0]))
          (map job_id (deduplicate_jobs three_jobs))"
    by blast+
  with f d show ?thesis by (simp only: simp_thms)
qed

lemma prepare_experience_only:
  "prepare_options default_config (Some experience_only)
     = (0, 50, [(''embedding'', 0), (''skills'', 0), (''education'', 0),
               (''experience'', 1), (''freshness'', 0)])"
  by (simp add: prepare_options_def experience_only_def weights_input_def DEFAULT_WEIGHTS_def
        dict_update_def normalise_weights_def default_config_def
        not_rounds_to_infinity_small)

lemma combined_experience_only:
  "combined_score [(''embedding'', 0), (''skills'', 0), (''education'', 0),
       (''experience'', 1), (''freshness'', 0)] f = Inr (factor_experience f)"
  by (simp add: combined_score_def weight_def)

lemma experience_4_40001: "experience_similarity (Some 4) (Some (40001 / 10000)) = 40000 / 40001"
  by (simp add: experience_similarity_def)

lemma experience_4_4: "experience_similarity (Some 4) (Some 4) = 1"
  by (simp add: experience_similarity_def)

lemma round4_40000_40001: "round4 (40000 / 40001) = 1"
  by (simp add: round4_def round_half_even_def)

lemma factors_experience_job:
  "job_factors l cfg now zero_vector (Some four_year_graduate) zero_vector
      \<lparr> job_skills = None, job_education = None,
        job_experience_years = Some years, job_updated_at = None \<rparr>
   = Inr \<lparr> factor_embedding = 0, factor_skills = 0, factor_education = 1/2,
           factor_experience = experience_similarity (Some 4) (Some years),
           factor_freshness = 1/2 \<rparr>"
  by (simp add: job_factors_def cosine_zero_vector length_zero_vector four_year_graduate_def
        education_similarity_def skills_similarity_def freshness_score_def)

lemma combined_experience_jobs:
  "job_combined_score l default_config (utc_now start_clock) zero_vector
      (Some four_year_graduate)
      (snd (snd (prepare_options default_config (Some experience_only))))
      (experience_job i years) = Inr (experience_similarity (Some 4) (Some years))"
  by (simp add: prepare_experience_only job_combined_score_def experience_job_def
        factors_experience_job combined_experience_only)

lemma score_experience_jobs:
  "score_jobs l cfg now zero_vector (Some four_year_graduate) 0
      [(''embedding'', 0), (''skills'', 0), (''education'', 0), (''experience'', 1),
       (''freshness'', 0)]
      [experience_job ''job-1'' (40001 / 10000), experience_job ''job-2'' 4]
   = Inr [experience_result ''job-1'', experience_result ''job-2'']"
  by (simp add: experience_job_def score_job_def factors_experience_job
        combined_experience_only experience_4_40001 experience_4_4 round_factors_def
        round4_0 round4_1 round4_half round4_40000_40001 experience_result_def)

lemma experience_jobs_ranked:
  "compute_matches l default_config start_clock [] zero_vector
      [experience_job ''job-1'' (40001 / 10000), experience_job ''job-2'' 4]
      (Some four_year_graduate) (Some experience_only)
   = (Inr [experience_result ''job-1'', experience_result ''job-2''],
      [(build_cache_key l zero_vector
          [experience_job ''job-1'' (40001 / 10000), experience_job ''job-2'' 4]
          (Some four_year_graduate) (Some experience_only),
        \<lparr> entry_value = [experience_result ''job-1'', experience_result ''job-2''],
          expires_at = 300 \<rparr>)])"
proof -
  let ?jobs = "[experience_job ''job-1'' (40001 / 10000), experience_job ''job-2'' 4]"
  have d: "deduplicate_jobs ?jobs = ?jobs"
    by (simp add: deduplicate_jobs_def experience_job_def)
  have ne: "deduplicate_jobs ?jobs \<noteq> []"
    by (simp add: d)
  have g: "get_from_cache
             (build_cache_key l zero_vector (deduplicate_jobs ?jobs)
                (Some four_year_graduate) (Some experience_only))
             (monotonic_get start_clock) [] = (None, [])"
    by (rule get_from_empty_cache)
  have r: "rank 50 [experience_result ''job-1'', experience_result ''job-2'']
             = [experience_result ''job-1'', experience_result ''job-2'']"
    by (simp add: rank_def experience_result_def)
  have c: "set_cache default_config k v (monotonic_set start_clock) []
             = (None, [(k, \<lparr> entry_value = v, expires_at = 300 \<rparr>)])" for k v
    by (simp add: set_cache_empty default_config_def start_clock_def)
  show ?thesis
    unfolding compute_matches_miss [OF length_zero_vector ne g prepare_experience_only]
      d score_experience_jobs
    by (simp add: r c)
qed

text \<open>
  Claim C4 as stated orders the list by the combined score. The sort key is the rounded
  score: with the experience score as the only factor, a graduate of 4 years, and the jobs
  \<open>job-1\<close> asking for 4.0001 years and \<open>job-2\<close> asking for 4 years, in this order, the
  combined scores are \<open>40000/40001\<close> and 1, both are reported as 1.0, and the stable sort
  leaves \<open>job-1\<close> before \<open>job-2\<close>, the lower combined score first.
\<close>

theorem results_ranked_by_score_counterexample:
  "job_combined_score plain_lib default_config (utc_now start_clock) zero_vector
      (Some four_year_graduate)
      (snd (snd (prepare_options default_config (Some experience_only))))
      (experience_job ''job-1'' (40001 / 10000)) = Inr (40000 / 40001)
   \<and> job_combined_score plain_lib default_config (utc_now start_clock) zero_vector
      (Some four_year_graduate)
      (snd (snd (prepare_options default_config (Some experience_only))))
      (experience_job ''job-2'' 4) = Inr 1
   \<and> fst (compute_matches plain_lib default_config start_clock [] zero_vector
          [experience_job ''job-1'' (40001 / 10000), experience_job ''job-2'' 4]
          (Some four_year_graduate) (Some experience_only))
       = Inr [experience_result ''job-1'', experience_result ''job-2'']
   \<and> score (experience_result ''job-1'') = 1 \<and> score (experience_result ''job-2'') = 1"
  by (simp add: combined_experience_jobs experience_4_40001 experience_4_4
        experience_jobs_ranked experience_result_def)

theorem compute_matches_no_jobs_witness:
  "deduplicate_jobs
     [\<lparr> job_id = None, embedding = Some zero_vector, metadata = None \<rparr>,
      \<lparr> job_id = Some '''', embedding = Some zero_vector, metadata = None \<rparr>,
      \<lparr> job_id = Some ''job-1'', embedding = None, metadata = None \<rparr>] = []
   \<and> compute_matches plain_lib default_config start_clock
        [(''key'', \<lparr> entry_value = [], expires_at = 0 \<rparr>)] zero_vector
        [\<lparr> job_id = None, embedding = Some zero_vector, metadata = None \<rparr>,
         \<lparr> job_id = Some '''', embedding = Some zero_vector, metadata = None \<rparr>,
         \<lparr> job_id = Some ''job-1'', embedding = None, metadata = None \<rparr>] None None
       = (Inr [], [(''key'', \<lparr> entry_value = [], expires_at = 0 \<rparr>)])"
proof -
  have d: "deduplicate_jobs
     [\<lparr> job_id = None, embedding = Some zero_vector, metadata = None \<rparr>,
      \<lparr> job_id = Some '''', embedding = Some zero_vector, metadata = None \<rparr>,
      \<lparr> job_id = Some ''job-1'', embedding = None, metadata = None \<rparr>] = []"
    by (simp add: deduplicate_jobs_def)
  from compute_matches_no_jobs [OF d, of plain_lib default_config start_clock
      "[(''key'', \<lparr> entry_value = [], expires_at = 0 \<rparr>)]" zero_vector None None] d
  show ?thesis
    by (simp add: length_zero_vector)
qed

text \<open>
  The claim as stated promises the empty list for every such input: with the empty job
  list and a graduate embedding of two components the call raises.
\<close>

theorem compute_matches_no_jobs_counterexample:
  "deduplicate_jobs [] = []
   \<and> compute_matches plain_lib default_config start_clock [] [0.1, 0.2] [] None None
       = (Inl (Failed_to_compute_matches (DimensionMismatch 3072 2)), [])"
  by (simp add: deduplicate_jobs_def compute_matches_def validate_vector_def
        EMBEDDING_DIMENSION_def)

subsection \<open>The cache key\<close>

lemma job_component_merged:
  "job_component l (merged_job l a b) = job_component l a @ ''::'' @ job_component l b"
  by (simp add: job_component_def merged_job_def)

lemma cache_key_text_merged:
  "cache_key_text l g [merged_job l a b] gm opts = cache_key_text l g [a, b] gm opts"
  by (simp add: cache_key_text_def job_component_merged)

lemma build_cache_key_merged:
  "build_cache_key l g [merged_job l a b] gm opts = build_cache_key l g [a, b] gm opts"
  by (simp add: build_cache_key_def cache_key_text_merged)

text \<open>
  Claim C6 at a failing input. The components of the key are joined with \<open>|\<close> and \<open>::\<close>
  and a job id is not escaped, so a job id can hold the separators: the job list of two
  jobs \<open>x\<close> and \<open>y\<close>, and the list of the one job \<open>merged_job l x y\<close>, are both unchanged by
  deduplication, are different job sets, and have the same cache key, for every graduate
  embedding, metadata and options, and whatever the digest is.
\<close>

theorem cache_key_separator_collision:
  "deduplicate_jobs [skill_job ''x'' [''go''], skill_job ''y'' [''rust'']]
     = [skill_job ''x'' [''go''], skill_job ''y'' [''rust'']]
   \<and> deduplicate_jobs [merged_job l (skill_job ''x'' [''go'']) (skill_job ''y'' [''rust''])]
     = [merged_job l (skill_job ''x'' [''go'']) (skill_job ''y'' [''rust''])]
   \<and> [merged_job l (skill_job ''x'' [''go'']) (skill_job ''y'' [''rust''])]
       \<noteq> [skill_job ''x'' [''go''], skill_job ''y'' [''rust'']]
   \<and> build_cache_key l g [merged_job l (skill_job ''x'' [''go'']) (skill_job ''y'' [''rust''])]
        gm opts
     = build_cache_key l g [skill_job ''x'' [''go''], skill_job ''y'' [''rust'']] gm opts"
  by (simp add: build_cache_key_merged deduplicate_jobs_def)
     (simp add: skill_job_def merged_job_def)

subsection \<open>Threshold and rounding\<close>

lemma round4_third: "round4 (1 / 3) = 3333 / 10000"
  by (simp add: round4_def round_half_even_def)

lemma skills_abc_a: "skills_similarity (Some [''a'', ''b'', ''c'']) (Some [''a'']) = 1 / 3"
  by (simp add: skills_similarity_def skill_set_def lower_def strip_def is_space_def
        lower_char_def upper_letters_def lower_letters_def card_insert_if)

lemma prepare_threshold_options:
  "prepare_options default_config (Some threshold_options)
     = (33333 / 100000, 50, [(''embedding'', 0), (''skills'', 1), (''education'', 0),
               (''experience'', 0), (''freshness'', 0)])"
  by (simp add: prepare_options_def threshold_options_def weights_input_def DEFAULT_WEIGHTS_def
        dict_update_def normalise_weights_def default_config_def
        not_rounds_to_infinity_small)

lemma factors_abc_job:
  "job_factors l cfg now zero_vector (Some abc_graduate) zero_vector
      \<lparr> job_skills = Some [''a''], job_education = None,
        job_experience_years = None, job_updated_at = None \<rparr>
   = Inr \<lparr> factor_embedding = 0, factor_skills = 1 / 3,
           factor_education = 1/2, factor_experience = 3/5, factor_freshness = 1/2 \<rparr>"
  by (simp add: job_factors_def cosine_zero_vector length_zero_vector abc_graduate_def
        education_similarity_def experience_similarity_def freshness_score_def skills_abc_a)

lemma score_abc_job:
  "score_jobs l cfg now zero_vector (Some abc_graduate) (33333 / 100000)
      [(''embedding'', 0), (''skills'', 1), (''education'', 0), (''experience'', 0),
       (''freshness'', 0)] [skill_job ''job-1'' [''a'']]
   = Inr [skill_result ''job-1'' (3333 / 10000)]"
  by (simp add: skill_job_def score_job_def factors_abc_job combined_skills_only
        round_factors_def round4_0 round4_half round4_06 round4_third skill_result_def)

lemma third_of_a_job:
  "compute_matches l default_config start_clock [] zero_vector [skill_job ''job-1'' [''a'']]
      (Some abc_graduate) (Some threshold_options)
   = (Inr [skill_result ''job-1'' (3333 / 10000)],
      [(build_cache_key l zero_vector [skill_job ''job-1'' [''a'']] (Some abc_graduate)
          (Some threshold_options),
        \<lparr> entry_value = [skill_result ''job-1'' (3333 / 10000)], expires_at = 300 \<rparr>)])"
proof -
  have d: "deduplicate_jobs [skill_job ''job-1'' [''a'']] = [skill_job ''job-1'' [''a'']]"
    by (simp add: deduplicate_jobs_def skill_job_def)
  have ne: "deduplicate_jobs [skill_job ''job-1'' [''a'']] \<noteq> []"
    by (simp add: d)
  have g: "get_from_cache
             (build_cache_key l zero_vector (deduplicate_jobs [skill_job ''job-1'' [''a'']])
                (Some abc_graduate) (Some threshold_options))
             (monotonic_get start_clock) [] = (None, [])"
    by (rule get_from_empty_cache)
  have r: "rank 50 [skill_result ''job-1'' (3333 / 10000)]
             = [skill_result ''job-1'' (3333 / 10000)]"
    by (simp add: rank_def)
  have c: "set_cache default_config k v (monotonic_set start_clock) []
             = (None, [(k, \<lparr> entry_value = v, expires_at = 300 \<rparr>)])" for k v
    by (simp add: set_cache_empty default_config_def start_clock_def)
  show ?thesis
    unfolding compute_matches_miss [OF length_zero_vector ne g prepare_threshold_options]
      d score_abc_job
    by (simp add: r c)
qed

text \<open>
  The second half of claim C10: a combined score of \<open>1/3\<close> passes the minimum score
  \<open>0.33333\<close> and is reported as \<open>0.3333\<close>, strictly below the minimum score.
\<close>

lemma rounded_score_below_threshold:
  "fst (compute_matches plain_lib default_config start_clock [] zero_vector
          [skill_job ''job-1'' [''a'']] (Some abc_graduate) (Some threshold_options))
     = Inr [skill_result ''job-1'' (3333 / 10000)]
   \<and> job_combined_score plain_lib default_config (utc_now start_clock) zero_vector
        (Some abc_graduate)
        (snd (snd (prepare_options default_config (Some threshold_options))))
        (skill_job ''job-1'' [''a'']) = Inr (1 / 3)
   \<and> fst (prepare_options default_config (Some threshold_options)) = 33333 / 100000
   \<and> score (skill_result ''job-1'' (3333 / 10000)) = 3333 / 10000"
proof -
  have c: "fst (compute_matches plain_lib default_config start_clock [] zero_vector
          [skill_job ''job-1'' [''a'']] (Some abc_graduate) (Some threshold_options))
     = Inr [skill_result ''job-1'' (3333 / 10000)]"
    by (simp add: third_of_a_job)
  have j: "job_combined_score plain_lib default_config (utc_now start_clock) zero_vector
        (Some abc_graduate)
        (snd (snd (prepare_options default_config (Some threshold_options))))
        (skill_job ''job-1'' [''a'']) = Inr (1 / 3)"
    by (simp add: prepare_threshold_options job_combined_score_def skill_job_def
          factors_abc_job combined_skills_only)
  have m: "fst (prepare_options default_config (Some threshold_options)) = 33333 / 100000"
    by (simp add: prepare_threshold_options)
  have s: "score (skill_result ''job-1'' (3333 / 10000)) = 3333 / 10000"
    by (simp add: skill_result_def)
  from c j m s show ?thesis by (simp only: simp_thms)
qed

subsection \<open>Repeated calls\<close>

lemma dict_set_append_last:
  "key \<notin> fst ` set xs \<Longrightarrow> dict_set key v (xs @ [(key, e)]) = xs @ [(key, v)]"
  by (induction xs) auto

lemma cache_pop_absent: "key \<notin> fst ` set c \<Longrightarrow> cache_pop key c = c"
  by (induction c) (auto simp: cache_pop_def)

lemma key_not_in_cache_pop: "key \<notin> fst ` set (cache_pop key c)"
  by (simp add: keys_cache_pop)

lemma move_to_end_present:
  "map_of c key = Some e \<Longrightarrow> move_to_end key c = cache_pop key c @ [(key, e)]"
  by (simp add: move_to_end_def)

lemma set_cache_eq:
  "set_cache cfg key v now c =
     evict (MATCH_CACHE_MAX_ENTRIES cfg)
       (cache_pop key c @
        [(key, \<lparr> entry_value = v,
                  expires_at = now + of_int (MATCH_CACHE_TTL_SECONDS cfg) \<rparr>)])"
proof (cases "map_of c key")
  case None
  then have "key \<notin> fst ` set c"
    by (simp add: map_of_eq_None_iff)
  then show ?thesis
    by (simp add: set_cache_def cache_pop_absent dict_set_absent)
next
  case (Some e)
  then have "key \<in> fst ` set c"
    by (metis map_of_eq_None_iff option.distinct(1))
  with Some show ?thesis
    by (simp add: set_cache_def move_to_end_present dict_set_append_last key_not_in_cache_pop)
qed

lemma evict_keeps_last:
  "1 \<le> m \<Longrightarrow> \<exists>ys. snd (evict m (xs @ [x])) = ys @ [x] \<and> suffix ys xs"
proof (induction xs)
  case Nil
  then show ?case by simp
next
  case (Cons a xs)
  then obtain ys where ys: "snd (evict m (xs @ [x])) = ys @ [x]" "suffix ys xs"
    by blast
  show ?case
  proof (cases "int (length ((a # xs) @ [x])) > m")
    case True
    with ys show ?thesis by (auto simp: suffix_Cons)
  next
    case False
    then show ?thesis by auto
  qed
qed

lemma map_of_snoc: "key \<notin> fst ` set ys \<Longrightarrow> map_of (ys @ [(key, v)]) key = Some v"
  by (induction ys) auto

lemma set_cache_lookup:
  assumes "1 \<le> MATCH_CACHE_MAX_ENTRIES cfg"
  shows "map_of (snd (set_cache cfg key v now c)) key
           = Some \<lparr> entry_value = v,
                    expires_at = now + of_int (MATCH_CACHE_TTL_SECONDS cfg) \<rparr>"
proof -
  let ?e = "\<lparr> entry_value = v, expires_at = now + of_int (MATCH_CACHE_TTL_SECONDS cfg) \<rparr>"
  obtain ys where ys: "snd (evict (MATCH_CACHE_MAX_ENTRIES cfg) (cache_pop key c @ [(key, ?e)]))
                         = ys @ [(key, ?e)]" "suffix ys (cache_pop key c)"
    using evict_keeps_last [OF assms] by blast
  from ys(2) have "set ys \<subseteq> set (cache_pop key c)"
    by (rule set_mono_suffix)
  then have "key \<notin> fst ` set ys"
    using key_not_in_cache_pop [of key c] by blast
  then have "map_of (ys @ [(key, ?e)]) key = Some ?e"
    by (rule map_of_snoc)
  then show ?thesis
    by (simp only: set_cache_eq ys(1))
qed

lemma move_to_end_lookup:
  assumes "map_of c key = Some e"
  shows "map_of (move_to_end key c) key = Some e"
proof -
  have "map_of (cache_pop key c @ [(key, e)]) key = Some e"
    using key_not_in_cache_pop by (rule map_of_snoc)
  then show ?thesis
    by (simp only: move_to_end_present [OF assms])
qed

lemma get_from_cache_live:
  "map_of c key = Some e \<Longrightarrow> \<not> expires_at e < now
   \<Longrightarrow> get_from_cache key now c = (Some (entry_value e), move_to_end key c)"
  by (simp add: get_from_cache_def)

lemma get_from_cache_Some:
  assumes "get_from_cache key now c = (Some v, c1)"
  shows "\<exists>e. map_of c key = Some e \<and> \<not> expires_at e < now \<and> v = entry_value e
             \<and> c1 = move_to_end key c"
  using assms by (auto simp: get_from_cache_def split: option.splits if_splits)

lemma compute_matches_valid_graduate:
  assumes "compute_matches l cfg clk c g jobs gm opts = (Inr res, c')"
  shows "length g = EMBEDDING_DIMENSION"
  using assms compute_matches_invalid_graduate [of g l cfg clk c jobs gm opts]
  by (cases "length g = EMBEDDING_DIMENSION") auto

text \<open>
  Claim C3, as the code has it. When a call of \<open>compute_matches\<close> returns a list for a job
  list that does not deduplicate to the empty list, the cache holds at least one entry
  (\<open>MATCH_CACHE_MAX_ENTRIES\<close> is at least 1), and a second call with the same arguments
  reads the cache before the entry of the request has expired (no later than the TTL after
  the write of the first call; and, for an entry that the first call found and returned,
  no later than its expiry), then the second call is answered from the cache and returns
  the same list, whatever its wall-clock time is.
\<close>

theorem compute_matches_repeat:
  assumes first: "compute_matches l cfg clk1 c g jobs gm opts = (Inr res, c1)"
    and ne: "deduplicate_jobs jobs \<noteq> []"
    and cap: "1 \<le> MATCH_CACHE_MAX_ENTRIES cfg"
    and fresh: "monotonic_get clk2
                  \<le> monotonic_set clk1 + of_int (MATCH_CACHE_TTL_SECONDS cfg)"
    and kept: "\<forall>e. map_of c (build_cache_key l g (deduplicate_jobs jobs) gm opts) = Some e
                 \<longrightarrow> expires_at e < monotonic_get clk1 \<or> monotonic_get clk2 \<le> expires_at e"
  shows "get_from_cache (build_cache_key l g (deduplicate_jobs jobs) gm opts)
           (monotonic_get clk2) c1
           = (Some res, move_to_end (build_cache_key l g (deduplicate_jobs jobs) gm opts) c1)
         \<and> compute_matches l cfg clk2 c1 g jobs gm opts
           = (Inr res, move_to_end (build_cache_key l g (deduplicate_jobs jobs) gm opts) c1)"
proof -
  let ?key = "build_cache_key l g (deduplicate_jobs jobs) gm opts"
  have len: "length g = EMBEDDING_DIMENSION"
    using first by (rule compute_matches_valid_graduate)
  obtain v c0 where g1: "get_from_cache ?key (monotonic_get clk1) c = (v, c0)"
    by (metis prod.collapse)
  have "\<exists>e. map_of c1 ?key = Some e \<and> entry_value e = res
            \<and> \<not> expires_at e < monotonic_get clk2"
  proof (cases v)
    case (Some cached)
    with g1 compute_matches_hit [OF len ne] first have "res = cached" "c1 = c0"
      by auto
    moreover from g1 Some obtain e where e: "map_of c ?key = Some e"
      "\<not> expires_at e < monotonic_get clk1" "cached = entry_value e" "c0 = move_to_end ?key c"
      using get_from_cache_Some by blast
    moreover from e kept have "\<not> expires_at e < monotonic_get clk2"
      by auto
    ultimately show ?thesis
      using move_to_end_lookup by auto
  next
    case None
    obtain minimum max_results ws where po: "prepare_options cfg opts = (minimum, max_results, ws)"
      by (metis prod.collapse)
    note cm = compute_matches_miss [OF len ne g1 [unfolded None] po]
    show ?thesis
    proof (cases "score_jobs l cfg (utc_now clk1) g gm minimum ws (deduplicate_jobs jobs)")
      case (Inl e)
      with cm first show ?thesis by simp
    next
      case (Inr results)
      obtain eo c2 where sc: "set_cache cfg ?key (rank max_results results)
                                (monotonic_set clk1) c0 = (eo, c2)"
        by (metis prod.collapse)
      from cm first Inr sc have r: "res = rank max_results results" "c1 = c2"
        by (cases eo; auto)+
      have "map_of c2 ?key = Some \<lparr> entry_value = rank max_results results,
               expires_at = monotonic_set clk1 + of_int (MATCH_CACHE_TTL_SECONDS cfg) \<rparr>"
        using set_cache_lookup [OF cap, of ?key "rank max_results results"
            "monotonic_set clk1" c0] sc by simp
      with r fresh show ?thesis by simp
    qed
  qed
  then obtain e where e: "map_of c1 ?key = Some e" "entry_value e = res"
    "\<not> expires_at e < monotonic_get clk2" by blast
  then have g2: "get_from_cache ?key (monotonic_get clk2) c1 = (Some res, move_to_end ?key c1)"
    using get_from_cache_live by blast
  with compute_matches_hit [OF len ne g2] show ?thesis
    by simp
qed

theorem compute_matches_repeat_witness:
  "compute_matches plain_lib default_config start_clock [] zero_vector three_jobs
      (Some python_graduate) (Some skills_only)
   = (Inr [skill_result ''job-2'' 1, skill_result ''job-1'' 0, skill_result ''job-3'' 0],
      [(build_cache_key plain_lib zero_vector three_jobs (Some python_graduate)
          (Some skills_only),
        \<lparr> entry_value = [skill_result ''job-2'' 1, skill_result ''job-1'' 0,
                          skill_result ''job-3'' 0],
          expires_at = 300 \<rparr>)])
   \<and> deduplicate_jobs three_jobs \<noteq> []
   \<and> 1 \<le> MATCH_CACHE_MAX_ENTRIES default_config
   \<and> monotonic_get later_clock
        \<le> monotonic_set start_clock + of_int (MATCH_CACHE_TTL_SECONDS default_config)
   \<and> map_of ([] :: cache) (build_cache_key plain_lib zero_vector (deduplicate_jobs three_jobs)
        (Some python_graduate) (Some skills_only)) = None
   \<and> fst (compute_matches plain_lib default_config later_clock
        [(build_cache_key plain_lib zero_vector three_jobs (Some python_graduate)
            (Some skills_only),
          \<lparr> entry_value = [skill_result ''job-2'' 1, skill_result ''job-1'' 0,
                            skill_result ''job-3'' 0],
            expires_at = 300 \<rparr>)]
        zero_vector three_jobs (Some python_graduate) (Some skills_only))
     = Inr [skill_result ''job-2'' 1, skill_result ''job-1'' 0, skill_result ''job-3'' 0]"
proof -
  have ne: "deduplicate_jobs three_jobs \<noteq> []"
    by (simp add: dedup_three) (simp add: three_jobs_def)
  have cap: "1 \<le> MATCH_CACHE_MAX_ENTRIES default_config"
    by (simp add: default_config_def)
  have fresh: "monotonic_get later_clock
        \<le> monotonic_set start_clock + of_int (MATCH_CACHE_TTL_SECONDS default_config)"
    by (simp add: later_clock_def start_clock_def default_config_def)
  have kept: "\<forall>e. map_of ([] :: cache) (build_cache_key plain_lib zero_vector
                 (deduplicate_jobs three_jobs) (Some python_graduate) (Some skills_only)) = Some e
                 \<longrightarrow> expires_at e < monotonic_get start_clock
                     \<or> monotonic_get later_clock \<le> expires_at e"
    by simp
  from compute_matches_repeat [OF three_jobs_ranked [of plain_lib] ne cap fresh kept]
    three_jobs_ranked [of plain_lib] ne cap fresh
  show ?thesis
    by simp
qed

lemma prepare_freshness_only:
  "prepare_options default_config (Some freshness_only)
     = (1, 50, [(''embedding'', 0), (''skills'', 0), (''education'', 0),
               (''experience'', 0), (''freshness'', 1)])"
  by (simp add: prepare_options_def freshness_only_def weights_input_def DEFAULT_WEIGHTS_def
        dict_update_def normalise_weights_def default_config_def
        not_rounds_to_infinity_small)

lemma combined_freshness_only:
  "combined_score [(''embedding'', 0), (''skills'', 0), (''education'', 0),
       (''experience'', 0), (''freshness'', 1)] f = Inr (factor_freshness f)"
  by (simp add: combined_score_def weight_def)

lemma replace_Z_sample: "replace_Z ''2025-01-01T00:00:00Z'' = ''2025-01-01T00:00:00+00:00''"
  by (simp add: replace_Z_def)

lemma freshness_at_start:
  "freshness_score plain_lib default_config 1735689600 (Some ''2025-01-01T00:00:00Z'') = 1"
  by (simp add: freshness_score_def replace_Z_sample plain_lib_def)

lemma half_powr_less_one: "0 < x \<Longrightarrow> (1 / 2) powr x < (1::real)"
  using powr_less_mono' [of "1 / 2" 0 x] by simp

lemma freshness_later:
  "freshness_score plain_lib default_config 1735689901 (Some ''2025-01-01T00:00:00Z'') < 1"
proof -
  have "(1 / 2) powr (301 / 86400 / 30) < (1::real)"
    by (rule half_powr_less_one) simp
  then show ?thesis
    by (simp add: freshness_score_def replace_Z_sample plain_lib_def default_config_def)
qed

lemma score_fresh_job_start:
  "score_jobs plain_lib default_config 1735689600 zero_vector None 1
      [(''embedding'', 0), (''skills'', 0), (''education'', 0), (''experience'', 0),
       (''freshness'', 1)] [fresh_job]
   = Inr [fresh_result]"
  by (simp add: fresh_job_def score_job_def job_factors_def cosine_zero_vector
        length_zero_vector combined_freshness_only freshness_at_start
        skills_similarity_def education_similarity_def experience_similarity_def
        round_factors_def round4_0 round4_1 round4_half round4_06 fresh_result_def)

lemma score_fresh_job_later:
  "score_jobs plain_lib default_config 1735689901 zero_vector None 1
      [(''embedding'', 0), (''skills'', 0), (''education'', 0), (''experience'', 0),
       (''freshness'', 1)] [fresh_job]
   = Inr []"
  using freshness_later
  by (simp add: fresh_job_def score_job_def job_factors_def cosine_zero_vector
        length_zero_vector combined_freshness_only)

lemma dedup_fresh_job: "deduplicate_jobs [fresh_job] = [fresh_job]"
  by (simp add: deduplicate_jobs_def fresh_job_def)

text \<open>
  The claim as stated has no condition on the time between the calls. With the
  configuration of the source, a second call 301 seconds after the first finds the entry
  expired and computes again; the freshness of the job has decayed below 1 by then, and
  with a minimum score of 1 the second call returns the empty list where the first one
  returned the job.
\<close>

theorem compute_matches_repeat_counterexample:
  "compute_matches plain_lib default_config start_clock [] zero_vector [fresh_job] None
      (Some freshness_only)
     = (Inr [fresh_result],
        [(build_cache_key plain_lib zero_vector [fresh_job] None (Some freshness_only),
          \<lparr> entry_value = [fresh_result], expires_at = 300 \<rparr>)])
   \<and> fst (compute_matches plain_lib default_config expired_clock
        [(build_cache_key plain_lib zero_vector [fresh_job] None (Some freshness_only),
          \<lparr> entry_value = [fresh_result], expires_at = 300 \<rparr>)]
        zero_vector [fresh_job] None (Some freshness_only))
     = Inr []
   \<and> [fresh_result] \<noteq> []"
proof -
  let ?key = "build_cache_key plain_lib zero_vector [fresh_job] None (Some freshness_only)"
  have ne: "deduplicate_jobs [fresh_job] \<noteq> []"
    by (simp add: dedup_fresh_job)
  have g1: "get_from_cache
              (build_cache_key plain_lib zero_vector (deduplicate_jobs [fresh_job]) None
                 (Some freshness_only))
              (monotonic_get start_clock) [] = (None, [])"
    by (rule get_from_empty_cache)
  have g2: "get_from_cache
              (build_cache_key plain_lib zero_vector (deduplicate_jobs [fresh_job]) None
                 (Some freshness_only))
              (monotonic_get expired_clock)
              [(?key, \<lparr> entry_value = [fresh_result], expires_at = 300 \<rparr>)] = (None, [])"
    by (simp add: get_from_cache_def dedup_fresh_job expired_clock_def cache_pop_def)
  have c1: "set_cache default_config k v (monotonic_set start_clock) []
             = (None, [(k, \<lparr> entry_value = v, expires_at = 300 \<rparr>)])" for k v
    by (simp add: set_cache_empty default_config_def start_clock_def)
  have c2: "set_cache default_config k v (monotonic_set expired_clock) []
             = (None, [(k, \<lparr> entry_value = v, expires_at = 601 \<rparr>)])" for k v
    by (simp add: set_cache_empty default_config_def expired_clock_def)
  have u1: "utc_now start_clock = 1735689600" by (simp add: start_clock_def)
  have u2: "utc_now expired_clock = 1735689901" by (simp add: expired_clock_def)
  have first: "compute_matches plain_lib default_config start_clock [] zero_vector [fresh_job]
      None (Some freshness_only)
     = (Inr [fresh_result], [(?key, \<lparr> entry_value = [fresh_result], expires_at = 300 \<rparr>)])"
    unfolding compute_matches_miss [OF length_zero_vector ne g1 prepare_freshness_only]
      dedup_fresh_job u1 score_fresh_job_start
    by (simp add: c1 rank_def)
  have second: "fst (compute_matches plain_lib default_config expired_clock
        [(?key, \<lparr> entry_value = [fresh_result], expires_at = 300 \<rparr>)]
        zero_vector [fresh_job] None (Some freshness_only)) = Inr []"
    unfolding compute_matches_miss [OF length_zero_vector ne g2 prepare_freshness_only]
      dedup_fresh_job u2 score_fresh_job_later
    by (simp add: c2 rank_def)
  from first second show ?thesis by simp
qed

subsection \<open>Dimension errors\<close>

lemma weight_present: "key \<in> fst ` set ws \<Longrightarrow> \<exists>w. weight ws key = Inr w"
  by (cases "map_of ws key") (auto simp: weight_def map_of_eq_None_iff)

lemma combined_score_complete:
  assumes "{''embedding'', ''skills'', ''education'', ''experience'', ''freshness''}
             \<subseteq> fst ` set ws"
  shows "\<exists>x. combined_score ws f = Inr x"
proof -
  obtain w1 where w1: "weight ws ''embedding'' = Inr w1"
    using assms weight_present [of "''embedding''" ws] by auto
  obtain w2 where w2: "weight ws ''skills'' = Inr w2"
    using assms weight_present [of "''skills''" ws] by auto
  obtain w3 where w3: "weight ws ''education'' = Inr w3"
    using assms weight_present [of "''education''" ws] by auto
  obtain w4 where w4: "weight ws ''experience'' = Inr w4"
    using assms weight_present [of "''experience''" ws] by auto
  obtain w5 where w5: "weight ws ''freshness'' = Inr w5"
    using assms weight_present [of "''freshness''" ws] by auto
  show ?thesis
    by (simp add: combined_score_def w1 w2 w3 w4 w5)
qed

lemma prepared_weights_complete:
  "{''embedding'', ''skills'', ''education'', ''experience'', ''freshness''}
     \<subseteq> fst ` set (snd (snd (prepare_options cfg opts)))"
proof -
  have "fst ` set (normalise_weights (weights_input cfg opts))
          = fst ` set (weights_input cfg opts)"
    by (metis list.set_map normalise_weights_keys)
  then show ?thesis
    using weights_input_keys [of cfg opts] by (simp add: prepare_options_def)
qed

lemma job_factors_dimension:
  assumes "length g = EMBEDDING_DIMENSION"
  shows "job_factors l cfg now g gm e md =
           (if length e = EMBEDDING_DIMENSION
            then Inr \<lparr> factor_embedding =
                         min (max (if norm2 g = 0 \<or> norm2 e = 0 then 0
                                   else dot g e / (norm2 g * norm2 e)) 0) 1,
                       factor_skills =
                         skills_similarity (Option.bind gm grad_skills) (job_skills md),
                       factor_education =
                         education_similarity (Option.bind gm grad_education)
                           (job_education md),
                       factor_experience =
                         experience_similarity (Option.bind gm grad_experience_years)
                           (job_experience_years md),
                       factor_freshness = freshness_score l cfg now (job_updated_at md) \<rparr>
            else Inl (DimensionMismatch EMBEDDING_DIMENSION (length e)))"
  using assms by (simp add: job_factors_def cosine_similarity_def validate_vector_def)

lemma score_job_wrong_dimension:
  assumes "length g = EMBEDDING_DIMENSION" and "job_id job = Some i" and "i \<noteq> []"
    and "embedding job = Some e" and "length e \<noteq> EMBEDDING_DIMENSION"
  shows "score_job l cfg now g gm minimum ws job
           = Inl (DimensionMismatch EMBEDDING_DIMENSION (length e))"
  using assms by (simp add: score_job_def job_factors_dimension)

lemma score_job_total:
  assumes "length g = EMBEDDING_DIMENSION"
    and "{''embedding'', ''skills'', ''education'', ''experience'', ''freshness''}
             \<subseteq> fst ` set ws"
  shows "(\<exists>r. score_job l cfg now g gm minimum ws job = Inr r)
         \<or> (\<exists>n. score_job l cfg now g gm minimum ws job
                   = Inl (DimensionMismatch EMBEDDING_DIMENSION n))"
proof (cases "\<exists>i e. job_id job = Some i \<and> i \<noteq> [] \<and> embedding job = Some e")
  case False
  then have "score_job l cfg now g gm minimum ws job = Inr None"
    by (cases "job_id job"; cases "embedding job") (auto simp: score_job_def)
  then show ?thesis by simp
next
  case True
  then obtain i e where ie: "job_id job = Some i" "i \<noteq> []" "embedding job = Some e"
    by blast
  show ?thesis
  proof (cases "length e = EMBEDDING_DIMENSION")
    case False
    with assms(1) ie show ?thesis
      by (simp add: score_job_wrong_dimension)
  next
    case True
    let ?md = "case metadata job of None \<Rightarrow> empty_job_metadata | Some m \<Rightarrow> m"
    obtain f where f: "job_factors l cfg now g gm e ?md = Inr f"
      using True assms(1) by (simp add: job_factors_dimension)
    obtain x where x: "combined_score ws f = Inr x"
      using combined_score_complete [OF assms(2)] by blast
    from ie f x show ?thesis
      by (simp add: score_job_def)
  qed
qed

lemma score_jobs_wrong_dimension:
  assumes "length g = EMBEDDING_DIMENSION"
    and "{''embedding'', ''skills'', ''education'', ''experience'', ''freshness''}
             \<subseteq> fst ` set ws"
  shows "job \<in> set jobs \<Longrightarrow> job_id job = Some i \<Longrightarrow> i \<noteq> [] \<Longrightarrow> embedding job = Some e
         \<Longrightarrow> length e \<noteq> EMBEDDING_DIMENSION
         \<Longrightarrow> \<exists>n. score_jobs l cfg now g gm minimum ws jobs
                   = Inl (DimensionMismatch EMBEDDING_DIMENSION n)"
proof (induction jobs)
  case Nil
  then show ?case by simp
next
  case (Cons first rest)
  show ?case
  proof (cases "\<exists>n. score_job l cfg now g gm minimum ws first
                        = Inl (DimensionMismatch EMBEDDING_DIMENSION n)")
    case True
    then show ?thesis by auto
  next
    case False
    then obtain r where r: "score_job l cfg now g gm minimum ws first = Inr r"
      using score_job_total [OF assms] by blast
    have "job \<noteq> first"
      using False score_job_wrong_dimension [OF assms(1) Cons.prems(2,3,4,5)] by auto
    with Cons.prems(1) have "job \<in> set rest" by simp
    then obtain n where "score_jobs l cfg now g gm minimum ws rest
                   = Inl (DimensionMismatch EMBEDDING_DIMENSION n)"
      using Cons.IH Cons.prems(2,3,4,5) by blast
    with r show ?thesis by simp
  qed
qed

lemma deduplicate_loop_members:
  "\<forall>(k, job) \<in> set acc. \<exists>i e. job_id job = Some i \<and> i \<noteq> [] \<and> embedding job = Some e
   \<Longrightarrow> \<forall>(k, job) \<in> set (deduplicate_loop acc jobs).
         \<exists>i e. job_id job = Some i \<and> i \<noteq> [] \<and> embedding job = Some e"
proof (induction jobs arbitrary: acc)
  case Nil
  then show ?case by simp
next
  case (Cons job rest)
  show ?case
  proof (cases "\<exists>i e. job_id job = Some i \<and> i \<noteq> [] \<and> embedding job = Some e
                    \<and> i \<notin> fst ` set acc")
    case True
    then obtain i e where i: "job_id job = Some i" "i \<noteq> []" "embedding job = Some e"
      "i \<notin> fst ` set acc" by blast
    have k: "\<forall>(k, j) \<in> set (acc @ [(i, job)]).
               \<exists>i e. job_id j = Some i \<and> i \<noteq> [] \<and> embedding j = Some e"
      using Cons.prems i(1,2,3) by simp
    have eq: "deduplicate_loop acc (job # rest) = deduplicate_loop (acc @ [(i, job)]) rest"
      using i by (rule deduplicate_loop_keep)
    show ?thesis
      unfolding eq using k by (rule Cons.IH)
  next
    case False
    then have eq: "deduplicate_loop acc (job # rest) = deduplicate_loop acc rest"
      by (rule deduplicate_loop_skip)
    show ?thesis
      unfolding eq using Cons.prems by (rule Cons.IH)
  qed
qed

lemma deduplicate_jobs_wellformed:
  assumes "job \<in> set (deduplicate_jobs jobs)"
  shows "\<exists>i e. job_id job = Some i \<and> i \<noteq> [] \<and> embedding job = Some e"
proof -
  have "\<forall>(k, job) \<in> set (deduplicate_loop [] jobs).
          \<exists>i e. job_id job = Some i \<and> i \<noteq> [] \<and> embedding job = Some e"
    by (rule deduplicate_loop_members) simp
  with assms show ?thesis
    by (auto simp: deduplicate_jobs_def)
qed

text \<open>
  With a graduate embedding of the declared dimension, a deduplicated job whose embedding
  has another length, and no entry under the key of the request in the cache,
  \<open>compute_matches\<close> raises the dimension error and leaves the cache as it was. (A
  graduate embedding of another length raises before anything else, by
  \<open>compute_matches_invalid_graduate\<close>.)
\<close>

lemma compute_matches_dimension_error:
  assumes "length g = EMBEDDING_DIMENSION"
    and "job \<in> set (deduplicate_jobs jobs)"
    and "embedding job = Some e" and "length e \<noteq> EMBEDDING_DIMENSION"
    and "map_of c (build_cache_key l g (deduplicate_jobs jobs) gm opts) = None"
  shows "\<exists>n. compute_matches l cfg clk c g jobs gm opts
               = (Inl (Failed_to_compute_matches (DimensionMismatch EMBEDDING_DIMENSION n)), c)"
proof -
  let ?key = "build_cache_key l g (deduplicate_jobs jobs) gm opts"
  have ne: "deduplicate_jobs jobs \<noteq> []"
    using assms(2) by auto
  have g1: "get_from_cache ?key (monotonic_get clk) c = (None, c)"
    using assms(5) by (simp add: get_from_cache_def)
  obtain minimum max_results ws where po: "prepare_options cfg opts = (minimum, max_results, ws)"
    by (metis prod.collapse)
  have ws: "{''embedding'', ''skills'', ''education'', ''experience'', ''freshness''}
              \<subseteq> fst ` set ws"
    using prepared_weights_complete [of cfg opts] po by simp
  obtain i where i: "job_id job = Some i" "i \<noteq> []"
    using deduplicate_jobs_wellformed [OF assms(2)] by blast
  obtain n where "score_jobs l cfg (utc_now clk) g gm minimum ws (deduplicate_jobs jobs)
                    = Inl (DimensionMismatch EMBEDDING_DIMENSION n)"
    using score_jobs_wrong_dimension [OF assms(1) ws assms(2) i assms(3,4)] by blast
  then show ?thesis
    by (simp add: compute_matches_miss [OF assms(1) ne g1 po])
qed

lemma score_python_job:
  "i \<noteq> [] \<Longrightarrow>
   score_jobs l default_config now zero_vector (Some python_graduate) 0
      [(''embedding'', 0), (''skills'', 1), (''education'', 0), (''experience'', 0),
       (''freshness'', 0)] [skill_job i [''python'']]
   = Inr [skill_result i 1]"
  by (simp add: skill_job_def score_job_def factors_skill_job combined_skills_only
        skills_python_python round_factors_def round4_0 round4_1 round4_half round4_06
        skill_result_def)

lemma merged_short_job:
  "merged_job l short_job (skill_job ''y'' [''python''])
     = skill_job (job_component l short_job @ ''::y'') [''python'']"
  by (simp add: merged_job_def skill_job_def)

lemma dedup_short_job:
  "deduplicate_jobs [short_job, skill_job ''y'' [''python'']]
     = [short_job, skill_job ''y'' [''python'']]"
  by (simp add: deduplicate_jobs_def short_job_def skill_job_def)

lemma dedup_merged_short_job:
  "deduplicate_jobs [merged_job l short_job (skill_job ''y'' [''python''])]
     = [merged_job l short_job (skill_job ''y'' [''python''])]"
  by (simp add: deduplicate_jobs_def merged_job_def skill_job_def)

text \<open>
  Claim C2 at a failing input. The cache is read before the embeddings of the jobs are
  validated, and two different job lists can have the same key. A first call, from the
  empty cache, with the one job \<open>merged_job l short_job y\<close> (a zero embedding of the
  declared dimension) returns a result and stores it. A second call 100 seconds later
  with the jobs \<open>short_job\<close> and \<open>y\<close> has the same key: although \<open>short_job\<close> survives
  deduplication and its embedding has two components, the call raises nothing and
  returns the list stored for the first request.
\<close>

theorem dimension_error_lost_on_cache_hit:
  "deduplicate_jobs [short_job, skill_job ''y'' [''python'']]
     = [short_job, skill_job ''y'' [''python'']]
   \<and> embedding short_job = Some [0.1, 0.2]
   \<and> length [0.1, 0.2 :: real] \<noteq> EMBEDDING_DIMENSION
   \<and> compute_matches l default_config start_clock [] zero_vector
        [merged_job l short_job (skill_job ''y'' [''python''])]
        (Some python_graduate) (Some skills_only)
     = (Inr [skill_result (job_component l short_job @ ''::y'') 1],
        [(build_cache_key l zero_vector [short_job, skill_job ''y'' [''python'']]
            (Some python_graduate) (Some skills_only),
          \<lparr> entry_value = [skill_result (job_component l short_job @ ''::y'') 1],
            expires_at = 300 \<rparr>)])
   \<and> compute_matches l default_config later_clock
        [(build_cache_key l zero_vector [short_job, skill_job ''y'' [''python'']]
            (Some python_graduate) (Some skills_only),
          \<lparr> entry_value = [skill_result (job_component l short_job @ ''::y'') 1],
            expires_at = 300 \<rparr>)]
        zero_vector [short_job, skill_job ''y'' [''python'']]
        (Some python_graduate) (Some skills_only)
     = (Inr [skill_result (job_component l short_job @ ''::y'') 1],
        [(build_cache_key l zero_vector [short_job, skill_job ''y'' [''python'']]
            (Some python_graduate) (Some skills_only),
          \<lparr> entry_value = [skill_result (job_component l short_job @ ''::y'') 1],
            expires_at = 300 \<rparr>)])"
proof -
  let ?merged = "merged_job l short_job (skill_job ''y'' [''python''])"
  let ?pair = "[short_job, skill_job ''y'' [''python'']]"
  let ?key = "build_cache_key l zero_vector ?pair (Some python_graduate) (Some skills_only)"
  let ?res = "[skill_result (job_component l short_job @ ''::y'') 1]"
  have key: "build_cache_key l zero_vector [?merged] (Some python_graduate) (Some skills_only)
               = ?key"
    by (rule build_cache_key_merged)
  have ne1: "deduplicate_jobs [?merged] \<noteq> []"
    by (simp add: dedup_merged_short_job)
  have g1: "get_from_cache
              (build_cache_key l zero_vector (deduplicate_jobs [?merged])
                 (Some python_graduate) (Some skills_only))
              (monotonic_get start_clock) [] = (None, [])"
    by (rule get_from_empty_cache)
  have c1: "set_cache default_config k v (monotonic_set start_clock) []
             = (None, [(k, \<lparr> entry_value = v, expires_at = 300 \<rparr>)])" for k v
    by (simp add: set_cache_empty default_config_def start_clock_def)
  have sc: "score_jobs l default_config (utc_now start_clock) zero_vector (Some python_graduate)
              0 [(''embedding'', 0), (''skills'', 1), (''education'', 0), (''experience'', 0),
                 (''freshness'', 0)] [?merged] = Inr ?res"
    unfolding merged_short_job by (rule score_python_job) simp
  have first: "compute_matches l default_config start_clock [] zero_vector [?merged]
                 (Some python_graduate) (Some skills_only)
               = (Inr ?res, [(?key, \<lparr> entry_value = ?res, expires_at = 300 \<rparr>)])"
    unfolding compute_matches_miss [OF length_zero_vector ne1 g1 prepare_skills_only]
      dedup_merged_short_job sc
    by (simp add: c1 rank_def key)
  have ne2: "deduplicate_jobs ?pair \<noteq> []"
    by (simp add: dedup_short_job)
  have g2: "get_from_cache
              (build_cache_key l zero_vector (deduplicate_jobs ?pair)
                 (Some python_graduate) (Some skills_only))
              (monotonic_get later_clock)
              [(?key, \<lparr> entry_value = ?res, expires_at = 300 \<rparr>)]
            = (Some ?res, [(?key, \<lparr> entry_value = ?res, expires_at = 300 \<rparr>)])"
    by (simp add: dedup_short_job get_from_cache_def later_clock_def move_to_end_def
          cache_pop_def)
  have second: "compute_matches l default_config later_clock
                  [(?key, \<lparr> entry_value = ?res, expires_at = 300 \<rparr>)]
                  zero_vector ?pair (Some python_graduate) (Some skills_only)
                = (Inr ?res, [(?key, \<lparr> entry_value = ?res, expires_at = 300 \<rparr>)])"
    by (rule compute_matches_hit [OF length_zero_vector ne2 g2])
  have "length [0.1, 0.2 :: real] \<noteq> EMBEDDING_DIMENSION"
    by (simp add: EMBEDDING_DIMENSION_def)
  moreover have "embedding short_job = Some [0.1, 0.2]"
    by (simp add: short_job_def)
  ultimately show ?thesis
    using first second dedup_short_job by (simp only: simp_thms)
qed

end
